theory Spec2Isabelle
  imports Main "HOL-Library.Sublist" "HOL-Library.AList" "HOL-Library.Word"
begin

section \<open>JavaScript strings\<close>

text \<open>
  A JavaScript string is a sequence of code units; \<open>length\<close>, \<open>substring\<close> and
  \<open>repeat\<close> count code units.  \<open>substring\<close> clamps both indices to
  \<open>[0, length]\<close> and swaps them when the first exceeds the second.
\<close>

definition js_clamp :: "'a list \<Rightarrow> int \<Rightarrow> nat" where
  "js_clamp s i = nat (min (max i 0) (int (length s)))"

definition js_substring :: "'a list \<Rightarrow> int \<Rightarrow> int \<Rightarrow> 'a list" where
  "js_substring s a b =
     (let lo = min (js_clamp s a) (js_clamp s b); hi = max (js_clamp s a) (js_clamp s b)
      in take (hi - lo) (drop lo s))"

definition js_substring_from :: "'a list \<Rightarrow> int \<Rightarrow> 'a list" where
  "js_substring_from s a = drop (js_clamp s a) s"

section \<open>PHI cipher: masking\<close>

text \<open>
  \<open>EncryptionService.maskSensitiveData(data, visibleChars)\<close>.  The count is taken as an
  integer (the default is 4).  The argument of \<open>repeat\<close> is at least 4, so \<open>repeat\<close>
  never raises.
\<close>

definition maskSensitiveData :: "string \<Rightarrow> int \<Rightarrow> string" where
  "maskSensitiveData data visibleChars =
     (if data = [] \<or> int (length data) \<le> visibleChars * 2 then ''****''
      else
        let start = js_substring data 0 visibleChars;
            end = js_substring_from data (int (length data) - visibleChars);
            masked = replicate (nat (max (int (length data) - visibleChars * 2) 4)) (CHR ''*'')
        in start @ masked @ end)"

section \<open>Dynamic values and thrown errors\<close>

text \<open>
  Values of type \<open>any\<close>: database rows, request bodies, resolver results.  Numbers are
  the integral ones.  An object is its list of own properties in insertion order.
\<close>

datatype json =
    JUndefined | JNull | JBool bool | JNum int | JStr string
  | JArr "json list" | JObj "(string \<times> json) list"

type_synonym row = "(string \<times> json) list"

fun truthy :: "json \<Rightarrow> bool" where
  "truthy JUndefined = False"
| "truthy JNull = False"
| "truthy (JBool b) = b"
| "truthy (JNum n) = (n \<noteq> 0)"
| "truthy (JStr s) = (s \<noteq> [])"
| "truthy (JArr xs) = True"
| "truthy (JObj kvs) = True"

text \<open>Property read \<open>o.k\<close> / \<open>o?.k\<close> for the names the code reads.\<close>

fun jprop :: "json \<Rightarrow> string \<Rightarrow> json" where
  "jprop (JObj kvs) k = (case map_of kvs k of Some v \<Rightarrow> v | None \<Rightarrow> JUndefined)"
| "jprop v k = JUndefined"

text \<open>
  What can be thrown.  \<open>Error msg\<close> is a plain \<open>new Error(msg)\<close>, and
  \<open>TypeError\<close>/\<open>SyntaxError\<close> are raised by the platform.  There are two families of
  application errors with the same class names.  \<open>AppError\<close> stands for the classes that
  \<open>middleware/handler.ts\<close> declares for itself, with \<open>toResponse\<close>.
  \<open>ExportedAppError\<close> stands for the classes of the module \<open>./errors\<close>, which is what the
  package exports as \<open>AppError\<close>, \<open>ValidationError\<close>, \<open>UnauthorizedError\<close>, ... and so
  what the services import and throw.  The two families share no prototype: an
  \<open>instanceof\<close> written in \<open>handler.ts\<close> is false of every exported error.
\<close>

datatype app_class = Base | Validation | Unauthorized | Forbidden | NotFound | Conflict

datatype thrown =
    Error string
  | TypeError string
  | SyntaxError string
  | AppError app_class string string nat json
  | ExportedAppError app_class string string nat json

definition ValidationError :: "string \<Rightarrow> json \<Rightarrow> thrown" where
  "ValidationError msg details = AppError Validation ''VALIDATION_ERROR'' msg 400 details"

definition UnauthorizedError :: "string \<Rightarrow> thrown" where
  "UnauthorizedError msg = AppError Unauthorized ''UNAUTHORIZED'' msg 401 JUndefined"

definition ForbiddenError :: "string \<Rightarrow> thrown" where
  "ForbiddenError msg = AppError Forbidden ''FORBIDDEN'' msg 403 JUndefined"

definition NotFoundError :: "string \<Rightarrow> thrown" where
  "NotFoundError msg = AppError NotFound ''NOT_FOUND'' msg 404 JUndefined"

text \<open>The classes of \<open>./errors\<close> that the patient service throws.\<close>

definition exported_ValidationError :: "string \<Rightarrow> json \<Rightarrow> thrown" where
  "exported_ValidationError msg details =
     ExportedAppError Validation ''VALIDATION_ERROR'' msg 400 details"

definition exported_UnauthorizedError :: "string \<Rightarrow> thrown" where
  "exported_UnauthorizedError msg = ExportedAppError Unauthorized ''UNAUTHORIZED'' msg 401 JUndefined"

section \<open>Persistence and key management as seen by the services\<close>

text \<open>
  The services reach the relational store through \<open>db.queryOne\<close>, \<open>db.insert\<close> and
  \<open>db.update\<close>, and the key-management service through \<open>encryption\<close>.  A table is the
  list of its rows; a statement on a table listed in \<open>failing\<close> raises the error given
  there.  The \<open>trace\<close> records, in order, what a call fetched, decided, decrypted and
  wrote.
\<close>

datatype event =
    Fetched string "row option"
  | Decided bool
  | KmsDecrypt string
  | KmsEncrypt string
  | Inserted string row
  | Updated string string

record db =
  tables :: "string \<Rightarrow> row list"
  failing :: "string \<Rightarrow> thrown option"
  kms_decrypt :: "string \<Rightarrow> thrown + string"
  kms_encrypt :: "string \<Rightarrow> thrown + string"
  json_parse :: "string \<Rightarrow> json option"
  clock :: string
  uuid_supply :: "nat \<Rightarrow> string"
  uuid_next :: nat
  trace :: "event list"

type_synonym 'a io = "db \<Rightarrow> (thrown + 'a) \<times> db"

definition log_event :: "event \<Rightarrow> db \<Rightarrow> db" where
  "log_event e st = st\<lparr>trace := trace st @ [e]\<rparr>"

definition randomUUID :: "db \<Rightarrow> string \<times> db" where
  "randomUUID st = (uuid_supply st (uuid_next st), st\<lparr>uuid_next := Suc (uuid_next st)\<rparr>)"

text \<open>SQL equality: \<open>NULL\<close> equals nothing.\<close>

definition sql_eq :: "json \<Rightarrow> json \<Rightarrow> bool" where
  "sql_eq a b = (a = b \<and> a \<noteq> JNull \<and> a \<noteq> JUndefined)"

definition col :: "row option \<Rightarrow> string \<Rightarrow> json" where
  "col r c = (case r of None \<Rightarrow> JNull
              | Some kvs \<Rightarrow> (case map_of kvs c of Some v \<Rightarrow> v | None \<Rightarrow> JNull))"

definition find_by :: "string \<Rightarrow> json \<Rightarrow> row list \<Rightarrow> row option" where
  "find_by c v rows = find (\<lambda>r. sql_eq (col (Some r) c) v) rows"

text \<open>
  \<open>JSON.stringify\<close> as a string: properties whose value is \<open>undefined\<close> are left out,
  an \<open>undefined\<close> array element is written \<open>null\<close>.
\<close>

fun nat_text :: "nat \<Rightarrow> string" where
  "nat_text n =
     (if n < 10 then [char_of (48 + n)] else nat_text (n div 10) @ [char_of (48 + n mod 10)])"

declare nat_text.simps [simp del]

definition int_text :: "int \<Rightarrow> string" where
  "int_text i = (if i < 0 then CHR ''-'' # nat_text (nat (- i)) else nat_text (nat i))"

definition escape_char :: "char \<Rightarrow> string" where
  "escape_char c =
     (let n = (of_char c :: nat) in
      if n = 0x22 then [CHR 0x5C, CHR 0x22]
      else if n = 0x5C then [CHR 0x5C, CHR 0x5C]
      else if n = 8 then [CHR 0x5C, CHR ''b'']
      else if n = 9 then [CHR 0x5C, CHR ''t'']
      else if n = 10 then [CHR 0x5C, CHR ''n'']
      else if n = 12 then [CHR 0x5C, CHR ''f'']
      else if n = 13 then [CHR 0x5C, CHR ''r'']
      else if n < 32
      then [CHR 0x5C, CHR ''u'', CHR ''0'', CHR ''0'',
            ''0123456789abcdef'' ! (n div 16), ''0123456789abcdef'' ! (n mod 16)]
      else [c])"

definition quote_text :: "string \<Rightarrow> string" where
  "quote_text s = [CHR 0x22] @ concat (map escape_char s) @ [CHR 0x22]"

fun join_comma :: "string list \<Rightarrow> string" where
  "join_comma [] = []"
| "join_comma [x] = x"
| "join_comma (x # y # ys) = x @ '','' @ join_comma (y # ys)"

fun json_text_of :: "json \<Rightarrow> string" where
  "json_text_of JUndefined = ''null''"
| "json_text_of JNull = ''null''"
| "json_text_of (JBool b) = (if b then ''true'' else ''false'')"
| "json_text_of (JNum n) = int_text n"
| "json_text_of (JStr s) = quote_text s"
| "json_text_of (JArr xs) = ''['' @ join_comma (map json_text_of xs) @ '']''"
| "json_text_of (JObj kvs) =
     ''{'' @ join_comma (map (\<lambda>(k, v). quote_text k @ '':'' @ json_text_of v)
                           (filter (\<lambda>(k, v). v \<noteq> JUndefined) kvs)) @ ''}''"

text \<open>
  \<open>formatParameters\<close>, for one parameter: strings, numbers, booleans and \<open>null\<close> go to
  the store as they are, an object or array as the string \<open>JSON.stringify(param)\<close>.  A
  parameter that is \<open>undefined\<close> is sent without a value and read as \<open>NULL\<close>; the calls
  modelled here pass none.  \<open>formatRecords\<close> hands back what is stored, scalars only.
\<close>

definition formatParameter :: "json \<Rightarrow> json" where
  "formatParameter param =
     (case param of
        JArr xs \<Rightarrow> JStr (json_text_of param)
      | JObj kvs \<Rightarrow> JStr (json_text_of param)
      | JUndefined \<Rightarrow> JNull
      | _ \<Rightarrow> param)"

definition formatParameters :: "row \<Rightarrow> row" where
  "formatParameters data = map (\<lambda>(k, v). (k, formatParameter v)) data"

text \<open>\<open>db.insert(table, data)\<close>: \<open>INSERT ... RETURNING *\<close>.\<close>

definition db_insert :: "string \<Rightarrow> row \<Rightarrow> json io" where
  "db_insert table data st =
     (case failing st table of
        Some err \<Rightarrow> (Inl err, st)
      | None \<Rightarrow>
         (Inr (JObj (formatParameters data)),
          log_event (Inserted table (formatParameters data))
            (st\<lparr>tables := (tables st)(table := tables st table @ [formatParameters data])\<rparr>)))"

text \<open>
  \<open>db.update(table, id, data)\<close>: \<open>UPDATE ... SET ..., updated_at = NOW() WHERE id = :id
  RETURNING *\<close>; \<open>null\<close> when no row has that id.
\<close>

definition assign_all :: "row \<Rightarrow> row \<Rightarrow> row" where
  "assign_all kvs r = fold (\<lambda>(k, v). AList.update k v) kvs r"

definition apply_updates :: "row \<Rightarrow> string \<Rightarrow> row \<Rightarrow> row" where
  "apply_updates data now r = AList.update ''updated_at'' (JStr now) (assign_all data r)"

definition db_update :: "string \<Rightarrow> string \<Rightarrow> row \<Rightarrow> json io" where
  "db_update table ident data st =
     (case failing st table of
        Some err \<Rightarrow> (Inl err, st)
      | None \<Rightarrow>
         (case find_by ''id'' (JStr ident) (tables st table) of
            None \<Rightarrow> (Inr JNull, st)
          | Some r \<Rightarrow>
              (Inr (JObj (apply_updates (formatParameters data) (clock st) r)),
               log_event (Updated table ident)
                 (st\<lparr>tables := (tables st)(table :=
                    map (\<lambda>r'. if sql_eq (col (Some r') ''id'') (JStr ident)
                               then apply_updates (formatParameters data) (clock st) r' else r')
                        (tables st table))\<rparr>))))"

text \<open>\<open>encryption.decryptWithKMS\<close> and \<open>encryption.encryptWithKMS\<close>; \<open>Buffer.from\<close>
  raises a \<open>TypeError\<close> on a value that is not a string.\<close>

definition decryptWithKMS :: "json \<Rightarrow> string io" where
  "decryptWithKMS v st =
     (case v of
        JStr c \<Rightarrow> (kms_decrypt st c, log_event (KmsDecrypt c) st)
      | _ \<Rightarrow> (Inl (TypeError ''The first argument must be of type string''), st))"

definition encryptWithKMS :: "json \<Rightarrow> string io" where
  "encryptWithKMS v st =
     (case v of
        JStr p \<Rightarrow> (kms_encrypt st p, log_event (KmsEncrypt p) st)
      | _ \<Rightarrow> (Inl (TypeError ''The first argument must be of type string''), st))"

text \<open>\<open>JSON.parse\<close> applied to a column value.\<close>

definition JSON_parse :: "db \<Rightarrow> json \<Rightarrow> thrown + json" where
  "JSON_parse st v =
     (case v of
        JStr s \<Rightarrow> (case json_parse st s of Some j \<Rightarrow> Inr j
                    | None \<Rightarrow> Inl (SyntaxError ''Unexpected token''))
      | JNum n \<Rightarrow> Inr (JNum n)
      | JBool b \<Rightarrow> Inr (JBool b)
      | JNull \<Rightarrow> Inr JNull
      | _ \<Rightarrow> Inl (SyntaxError ''Unexpected token''))"

section \<open>Medical record service\<close>

record identity =
  sub :: string
  custom_role :: "string option"

text \<open>The per-service audit helpers: a bare \<open>await db.insert(...)\<close>.\<close>

definition logAccessEvent :: "string \<Rightarrow> string \<Rightarrow> string \<Rightarrow> json io" where
  "logAccessEvent userId recordId action st =
     (let (uuid, st1) = randomUUID st in
      db_insert ''medical_record_access_logs''
        [(''id'', JStr uuid), (''medical_record_id'', JStr recordId),
         (''user_id'', JStr userId), (''action'', JStr action),
         (''timestamp'', JStr (clock st1))] st1)"

definition logHipaaEvent :: "string \<Rightarrow> string \<Rightarrow> string \<Rightarrow> string \<Rightarrow> bool \<Rightarrow> json io" where
  "logHipaaEvent userId action resource resourceId phiAccessed st =
     (let (uuid, st1) = randomUUID st in
      db_insert ''audit_logs''
        [(''id'', JStr uuid), (''user_id'', JStr userId), (''action'', JStr action),
         (''resource'', JStr resource), (''resource_id'', JStr resourceId),
         (''phi_accessed'', JBool phiAccessed), (''timestamp'', JStr (clock st1))] st1)"

definition parse_or_empty :: "db \<Rightarrow> json \<Rightarrow> thrown + json" where
  "parse_or_empty st v = (if truthy v then JSON_parse st v else Inr (JArr []))"

definition formatMedicalRecord :: "db \<Rightarrow> json \<Rightarrow> thrown + json" where
  "formatMedicalRecord st record =
     (case parse_or_empty st (jprop record ''icd10_codes'') of Inl e \<Rightarrow> Inl e | Inr icd \<Rightarrow>
      case parse_or_empty st (jprop record ''cpt_codes'') of Inl e \<Rightarrow> Inl e | Inr cpt \<Rightarrow>
      case parse_or_empty st (jprop record ''medications'') of Inl e \<Rightarrow> Inl e | Inr meds \<Rightarrow>
      case parse_or_empty st (jprop record ''lab_results'') of Inl e \<Rightarrow> Inl e | Inr labs \<Rightarrow>
      Inr (JObj
        [(''id'', jprop record ''id''),
         (''patientId'', jprop record ''patient_id''),
         (''providerId'', jprop record ''provider_id''),
         (''recordType'', jprop record ''record_type''),
         (''date'', jprop record ''date''),
         (''title'', jprop record ''title''),
         (''content'', if truthy (jprop record ''content'') then jprop record ''content''
                       else JStr ''[Encrypted]''),
         (''icd10Codes'', icd), (''cptCodes'', cpt),
         (''medications'', meds), (''labResults'', labs),
         (''createdAt'', jprop record ''created_at''),
         (''updatedAt'', jprop record ''updated_at'')]))"

text \<open>
  The lookup of \<open>getMedicalRecord\<close>: \<open>SELECT mr.*, p.mrn, p.user_id as patient_user_id,
  ...\<close> over \<open>medical_records\<close> left-joined with \<open>patients\<close> and \<open>users\<close>.
  The row object is filled column by column, so a later column of the same name
  overwrites an earlier one.
\<close>

definition medical_record_query :: "string \<Rightarrow> json io" where
  "medical_record_query recordId st =
     (case failing st ''medical_records'' of
        Some err \<Rightarrow> (Inl err, st)
      | None \<Rightarrow>
         (case find_by ''id'' (JStr recordId) (tables st ''medical_records'') of
            None \<Rightarrow> (Inr JNull, log_event (Fetched ''medical_records'' None) st)
          | Some mr \<Rightarrow>
              (let p = find_by ''id'' (col (Some mr) ''patient_id'') (tables st ''patients'');
                   pu = find_by ''id'' (col p ''user_id'') (tables st ''users'');
                   prov = find_by ''id'' (col (Some mr) ''provider_id'') (tables st ''users'');
                   r = assign_all [(''mrn'', col p ''mrn''),
                             (''patient_user_id'', col p ''user_id''),
                             (''patient_first_name'', col pu ''first_name''),
                             (''patient_last_name'', col pu ''last_name''),
                             (''provider_first_name'', col prov ''first_name''),
                             (''provider_last_name'', col prov ''last_name'')] mr
               in (Inr (JObj r), log_event (Fetched ''medical_records'' (Some r)) st))))"

definition decrypt_content :: "json \<Rightarrow> json io" where
  "decrypt_content record st =
     (case record of
        JObj r \<Rightarrow>
          (if truthy (jprop record ''content_encrypted'') then
             (case decryptWithKMS (jprop record ''content_encrypted'') st of
                (Inl e, st1) \<Rightarrow> (Inl e, st1)
              | (Inr plain, st1) \<Rightarrow>
                  (Inr (JObj (AList.delete ''content_encrypted''
                                (AList.update ''content'' (JStr plain) r))), st1))
           else (Inr record, st))
      | _ \<Rightarrow> (Inr record, st))"

text \<open>What \<open>getMedicalRecord\<close> does once the check has passed.\<close>

definition granted_record :: "string \<Rightarrow> identity \<Rightarrow> json \<Rightarrow> json io" where
  "granted_record ident idn record st =
     (case decrypt_content record st of
        (Inl e, st2) \<Rightarrow> (Inl e, st2)
      | (Inr rec, st2) \<Rightarrow>
     (case logAccessEvent (sub idn) ident ''ACCESSED'' st2 of
        (Inl e, st3) \<Rightarrow> (Inl e, st3)
      | (Inr _, st3) \<Rightarrow>
     (case logHipaaEvent (sub idn) ''MEDICAL_RECORD_ACCESSED'' ''medical_record''
             ident True st3 of
        (Inl e, st4) \<Rightarrow> (Inl e, st4)
      | (Inr _, st4) \<Rightarrow> (formatMedicalRecord st4 rec, st4))))"

definition getMedicalRecord :: "string \<Rightarrow> identity \<Rightarrow> json io" where
  "getMedicalRecord ident idn st =
     (case medical_record_query ident st of
        (Inl e, st1) \<Rightarrow> (Inl e, st1)
      | (Inr record, st1) \<Rightarrow>
          if \<not> truthy record then (Inl (Error ''Medical record not found''), st1)
          else if custom_role idn = Some ''PATIENT''
                  \<and> jprop record ''patient_user_id'' \<noteq> JStr (sub idn)
          then (Inl (Error ''Access denied to medical record''), log_event (Decided False) st1)
          else granted_record ident idn record (log_event (Decided True) st1))"

section \<open>Appointment service\<close>

definition formatAppointment :: "json \<Rightarrow> json" where
  "formatAppointment appointment =
     JObj [(''id'', jprop appointment ''id''),
           (''patientId'', jprop appointment ''patient_id''),
           (''providerId'', jprop appointment ''provider_id''),
           (''appointmentDate'', jprop appointment ''appointment_date''),
           (''duration'', jprop appointment ''duration''),
           (''type'', jprop appointment ''type''),
           (''status'', jprop appointment ''status''),
           (''reason'', jprop appointment ''reason''),
           (''notes'', jprop appointment ''notes''),
           (''location'', jprop appointment ''location''),
           (''isVirtual'', jprop appointment ''is_virtual''),
           (''reminderSent'', jprop appointment ''reminder_sent''),
           (''createdAt'', jprop appointment ''created_at''),
           (''updatedAt'', jprop appointment ''updated_at'')]"

definition appointment_query :: "string \<Rightarrow> json io" where
  "appointment_query appointmentId st =
     (case failing st ''appointments'' of
        Some err \<Rightarrow> (Inl err, st)
      | None \<Rightarrow>
         (case find_by ''id'' (JStr appointmentId) (tables st ''appointments'') of
            None \<Rightarrow> (Inr JNull, log_event (Fetched ''appointments'' None) st)
          | Some a \<Rightarrow>
              (let p = find_by ''id'' (col (Some a) ''patient_id'') (tables st ''patients'');
                   pu = find_by ''id'' (col p ''user_id'') (tables st ''users'');
                   prov = find_by ''id'' (col (Some a) ''provider_id'') (tables st ''users'');
                   r = assign_all [(''mrn'', col p ''mrn''),
                            (''patient_user_id'', col p ''user_id''),
                            (''patient_first_name'', col pu ''first_name''),
                            (''patient_last_name'', col pu ''last_name''),
                            (''provider_first_name'', col prov ''first_name''),
                            (''provider_last_name'', col prov ''last_name'')] a
               in (Inr (JObj r), log_event (Fetched ''appointments'' (Some r)) st))))"

definition getAppointment :: "string \<Rightarrow> identity \<Rightarrow> json io" where
  "getAppointment ident idn st =
     (case appointment_query ident st of
        (Inl e, st1) \<Rightarrow> (Inl e, st1)
      | (Inr appointment, st1) \<Rightarrow>
          if \<not> truthy appointment then (Inl (Error ''Appointment not found''), st1)
          else if custom_role idn = Some ''PATIENT''
                  \<and> jprop appointment ''patient_user_id'' \<noteq> JStr (sub idn)
          then (Inl (Error ''Access denied to appointment''), log_event (Decided False) st1)
          else
            (case logHipaaEvent (sub idn) ''APPOINTMENT_ACCESSED'' ''appointment'' ident True
                    (log_event (Decided True) st1) of
               (Inl e, st2) \<Rightarrow> (Inl e, st2)
             | (Inr _, st2) \<Rightarrow> (Inr (formatAppointment appointment), st2)))"

section \<open>Patient service\<close>

record AuthContext =
  userId :: string
  email :: string
  role :: string
  userType :: string
  guardianFor :: "string list option"

definition toFunctionIdentity :: "AuthContext \<Rightarrow> identity" where
  "toFunctionIdentity authContext = \<lparr>sub = userId authContext, custom_role = Some (role authContext)\<rparr>"

definition hasPatientAccess :: "AuthContext \<Rightarrow> string \<Rightarrow> bool" where
  "hasPatientAccess authContext patientId =
     (role authContext = ''ADMIN'' \<or> role authContext = ''DOCTOR'' \<or> role authContext = ''NURSE''
      \<or> (role authContext = ''PATIENT'' \<and> userId authContext = patientId)
      \<or> (role authContext = ''GUARDIAN''
          \<and> (case guardianFor authContext of None \<Rightarrow> False | Some ws \<Rightarrow> patientId \<in> set ws)))"

definition patients_query :: "string \<Rightarrow> string \<Rightarrow> json io" where
  "patients_query column v st =
     (case failing st ''patients'' of
        Some err \<Rightarrow> (Inl err, st)
      | None \<Rightarrow>
         (case find_by column (JStr v) (tables st ''patients'') of
            None \<Rightarrow> (Inr JNull, log_event (Fetched ''patients'' None) st)
          | Some r \<Rightarrow> (Inr (JObj r), log_event (Fetched ''patients'' (Some r)) st)))"

definition decryptSensitiveData :: "json \<Rightarrow> json io" where
  "decryptSensitiveData patient st =
     (if truthy (jprop (jprop patient ''demographics'') ''ssn'') then
        (case decryptWithKMS (jprop (jprop patient ''demographics'') ''ssn'') st of
           (Inl e, st1) \<Rightarrow> (Inl e, st1)
         | (Inr plain, st1) \<Rightarrow>
             (case (patient, jprop patient ''demographics'') of
                (JObj r, JObj d) \<Rightarrow>
                  (Inr (JObj (AList.update ''demographics''
                                (JObj (AList.update ''ssn'' (JStr plain) d)) r)), st1)
              | _ \<Rightarrow> (Inr patient, st1)))
      else (Inr patient, st))"

definition getPatient :: "string \<Rightarrow> identity \<Rightarrow> json io" where
  "getPatient ident idn st =
     (if custom_role idn = Some ''PATIENT'' then
        (case patients_query ''user_id'' (sub idn) st of
           (Inl e, st1) \<Rightarrow> (Inl e, st1)
         | (Inr result, st1) \<Rightarrow>
             if \<not> truthy result then (Inr JNull, st1) else decryptSensitiveData result st1)
      else if custom_role idn \<in> {Some ''PROVIDER'', Some ''ADMIN'', Some ''NURSE''} then
        (case patients_query ''id'' ident st of
           (Inl e, st1) \<Rightarrow> (Inl e, st1)
         | (Inr result, st1) \<Rightarrow>
             if \<not> truthy result then (Inr JNull, st1) else decryptSensitiveData result st1)
      else (Inl (Error ''Unauthorized''), st))"

definition demographics_update :: "json \<Rightarrow> row io" where
  "demographics_update input st =
     (if truthy (jprop (jprop input ''demographics'') ''ssn'') then
        (case encryptWithKMS (jprop (jprop input ''demographics'') ''ssn'') st of
           (Inl e, st1) \<Rightarrow> (Inl e, st1)
         | (Inr encryptedSSN, st1) \<Rightarrow>
             (case jprop input ''demographics'' of
                JObj d \<Rightarrow>
                  (Inr [(''demographics'', JObj (AList.update ''ssn'' (JStr encryptedSSN) d))], st1)
              | _ \<Rightarrow> (Inr [(''demographics'', JObj [(''ssn'', JStr encryptedSSN)])], st1)))
      else if truthy (jprop input ''demographics'')
      then (Inr [(''demographics'', jprop input ''demographics'')], st)
      else (Inr [], st))"

definition updatePatient :: "string \<Rightarrow> json \<Rightarrow> identity \<Rightarrow> json io" where
  "updatePatient ident input idn st =
     (if custom_role idn \<notin> {Some ''PROVIDER'', Some ''ADMIN'', Some ''NURSE''}
      then (Inl (Error ''Unauthorized''), st)
      else
        (case demographics_update input st of
           (Inl e, st1) \<Rightarrow> (Inl e, st1)
         | (Inr demo, st1) \<Rightarrow>
             (let updates =
                    [(''updatedBy'', JStr (sub idn)), (''updatedAt'', JStr (clock st))] @ demo
                    @ (if truthy (jprop input ''insurance'')
                       then [(''insurance'', jprop input ''insurance'')] else [])
                    @ (if truthy (jprop input ''preferredLanguage'')
                       then [(''preferredLanguage'', jprop input ''preferredLanguage'')] else [])
              in case db_update ''patients'' ident updates st1 of
                   (Inl e, st2) \<Rightarrow> (Inl e, st2)
                 | (Inr _, st2) \<Rightarrow> getPatient ident idn st2)))"

text \<open>
  The arms \<open>case 'getPatient'\<close> and \<open>case 'updatePatient'\<close> of \<open>baseHandler\<close>; its
  error classes are the ones imported from the package.
\<close>

definition baseHandler_getPatient :: "AuthContext \<Rightarrow> string option \<Rightarrow> json io" where
  "baseHandler_getPatient authContext args_id st =
     (case args_id of
        None \<Rightarrow> (Inl (exported_ValidationError ''Patient ID is required'' JUndefined), st)
      | Some i \<Rightarrow>
          if i = []
          then (Inl (exported_ValidationError ''Patient ID is required'' JUndefined), st)
          else if \<not> hasPatientAccess authContext i
          then (Inl (exported_UnauthorizedError
                  ''You do not have access to this patient's information''), st)
          else getPatient i (toFunctionIdentity authContext) st)"

definition baseHandler_updatePatient :: "AuthContext \<Rightarrow> string option \<Rightarrow> json \<Rightarrow> json io" where
  "baseHandler_updatePatient authContext args_id args_input st =
     (case args_id of
        None \<Rightarrow> (Inl (exported_ValidationError ''Patient ID is required'' JUndefined), st)
      | Some i \<Rightarrow>
          if i = []
          then (Inl (exported_ValidationError ''Patient ID is required'' JUndefined), st)
          else if \<not> truthy args_input
          then (Inl (exported_ValidationError ''Update input is required'' JUndefined), st)
          else if \<not> hasPatientAccess authContext i
          then (Inl (exported_UnauthorizedError
                  ''You do not have permission to update this patient's information''), st)
          else updatePatient i args_input (toFunctionIdentity authContext) st)"

section \<open>A sample database\<close>

definition demo_tables :: "string \<Rightarrow> row list" where
  "demo_tables t =
     (if t = ''users'' then
        [[(''id'', JStr ''u1''), (''first_name'', JStr ''Ann''), (''last_name'', JStr ''Lee'')],
         [(''id'', JStr ''u2''), (''first_name'', JStr ''Bob''), (''last_name'', JStr ''Ray'')],
         [(''id'', JStr ''d1''), (''first_name'', JStr ''Eve''), (''last_name'', JStr ''Kim'')]]
      else if t = ''patients'' then
        [[(''id'', JStr ''p1''), (''user_id'', JStr ''u1''), (''mrn'', JStr ''MRN000001'')]]
      else if t = ''medical_records'' then
        [[(''id'', JStr ''r1''), (''patient_id'', JStr ''p1''), (''provider_id'', JStr ''d1''),
          (''title'', JStr ''Visit''), (''content_encrypted'', JStr ''kms:flu'')]]
      else if t = ''appointments'' then
        [[(''id'', JStr ''a1''), (''patient_id'', JStr ''p1''), (''provider_id'', JStr ''d1''),
          (''status'', JStr ''SCHEDULED'')]]
      else [])"

definition demo_db :: db where
  "demo_db =
     \<lparr>tables = demo_tables, failing = (\<lambda>t. None),
      kms_decrypt = (\<lambda>c. if c = ''kms:flu'' then Inr ''flu''
                          else Inl (Error ''InvalidCiphertextException'')),
      kms_encrypt = (\<lambda>p. Inr (''kms:'' @ p)),
      json_parse = (\<lambda>s. if s = ''[]'' then Some (JArr []) else None),
      clock = ''2025-01-01T00:00:00.000Z'',
      uuid_supply = (\<lambda>n. ''uuid-'' @ replicate n (CHR ''i'')),
      uuid_next = 0, trace = []\<rparr>"

definition u1 :: identity where
  "u1 = \<lparr>sub = ''u1'', custom_role = Some ''PATIENT''\<rparr>"

definition u2 :: identity where
  "u2 = \<lparr>sub = ''u2'', custom_role = Some ''PATIENT''\<rparr>"

section \<open>Order of events in a call\<close>






definition events_of :: "'a io \<Rightarrow> db \<Rightarrow> event list" where
  "events_of f st = trace (snd (f (st\<lparr>trace := []\<rparr>)))"

text \<open>The owner of a record or appointment, as the lookups join it in.\<close>

definition record_owner :: "db \<Rightarrow> row \<Rightarrow> json" where
  "record_owner st r =
     col (find_by ''id'' (col (Some r) ''patient_id'') (tables st ''patients'')) ''user_id''"

text \<open>The sample database with the \<open>audit_logs\<close> table unavailable.\<close>

definition audit_down :: db where
  "audit_down =
     demo_db\<lparr>failing := (\<lambda>t. if t = ''audit_logs'' then Some (Error ''Database unavailable'')
                             else None)\<rparr>"

definition patient_u1 :: AuthContext where
  "patient_u1 = \<lparr>userId = ''u1'', email = ''ann@example.org'', role = ''PATIENT'',
                  userType = ''client'', guardianFor = None\<rparr>"

section \<open>JSON text\<close>

text \<open>
  A string handed to \<open>JSON.parse\<close> either is the text of a value or is not JSON at all;
  \<open>JSON.stringify\<close> produces the text of a value, dropping properties whose value is
  \<open>undefined\<close> and writing \<open>null\<close> for \<open>undefined\<close> array elements, and gives
  \<open>undefined\<close> for \<open>undefined\<close>.
\<close>

datatype json_text = Text json | Garbage string

fun json_clone :: "json \<Rightarrow> json" where
  "json_clone (JArr xs) = JArr (map (\<lambda>x. if x = JUndefined then JNull else json_clone x) xs)"
| "json_clone (JObj kvs) =
     JObj (map (\<lambda>(k, v). (k, json_clone v)) (filter (\<lambda>(k, v). v \<noteq> JUndefined) kvs))"
| "json_clone v = v"

definition JSON_parse_text :: "json_text \<Rightarrow> thrown + json" where
  "JSON_parse_text t =
     (case t of Text j \<Rightarrow> Inr j | Garbage s \<Rightarrow> Inl (SyntaxError ''Unexpected token''))"

definition JSON_stringify :: "json \<Rightarrow> json_text option" where
  "JSON_stringify j = (if j = JUndefined then None else Some (Text (json_clone j)))"

definition text_truthy :: "json_text option \<Rightarrow> bool" where
  "text_truthy t = (t \<noteq> None \<and> t \<noteq> Some (Garbage []))"

section \<open>Audit recorder (\<open>middleware/auditLog.ts\<close>)\<close>

definition REDACTED :: json where
  "REDACTED = JStr ''***REDACTED***''"

definition sensitiveFields_body :: "string list" where
  "sensitiveFields_body =
     [''password'', ''token'', ''refreshToken'', ''ssn'', ''creditCard'', ''bankAccount'',
      ''secret'', ''apiKey'']"

text \<open>
  \<open>sanitizeBody\<close>: a deep copy through \<open>JSON.parse(JSON.stringify(body))\<close>, then each
  listed name is looked up on the copy itself and overwritten when its value is truthy.
\<close>

definition redact_field :: "string \<Rightarrow> json \<Rightarrow> json" where
  "redact_field field sanitized =
     (case sanitized of
        JObj kvs \<Rightarrow> if truthy (jprop sanitized field)
                    then JObj (AList.update field REDACTED kvs) else sanitized
      | _ \<Rightarrow> sanitized)"

definition sanitizeBody :: "json \<Rightarrow> json" where
  "sanitizeBody body =
     (if \<not> truthy body then body
      else fold redact_field sensitiveFields_body (json_clone body))"

record AuditLogEntry =
  ae_id :: string
  ae_timestamp :: int
  ae_userId :: string
  ae_action :: string
  ae_resource :: string
  ae_resourceId :: "string option"
  ae_method :: string
  ae_endpoint :: string
  ae_statusCode :: nat
  ae_ipAddress :: string
  ae_userAgent :: "string option"
  ae_requestBody :: "json option"
  ae_responseBody :: "json option"
  ae_phiAccessed :: bool
  ae_duration :: int
  ae_error :: "(string \<times> string option) option"
  ae_ttl :: "int option"

record api_event =
  ev_path :: string
  ev_httpMethod :: string
  ev_headers :: "(string \<times> string) list"
  ev_body :: "json_text option"
  ev_pathParameters_id :: "string option"
  ev_cognitoIdentityId :: "string option"
  ev_userArn :: "string option"
  ev_sourceIp :: string
  ev_request_authorization :: "string option"
  ev_authContext :: "AuthContext option"

record lambda_context =
  awsRequestId :: string
  remainingTimeInMillis :: int

record api_response =
  rs_statusCode :: nat
  rs_headers :: "(string \<times> string) list"
  rs_body :: "json_text option"

record jwt_payload =
  jwt_sub :: string
  jwt_email :: "string option"
  jwt_role :: "string option"
  jwt_userType :: "string option"

text \<open>
  What a call of the pipeline works on: the event object, which every middleware of the
  chain shares and may assign to; the audit table and whether a \<open>put\<close> to it fails;
  the lines written by \<open>console.error\<close>; the clock (\<open>Date.now()\<close>, in milliseconds,
  which also stands for the ISO timestamps); the source of \<open>uuidv4()\<close>; and the
  identity provider's token verifier.
\<close>

record world =
  event :: api_event
  audit_items :: "AuditLogEntry list"
  audit_put_error :: "thrown option"
  console_error :: "string list"
  now :: int
  uuid_src :: "nat \<Rightarrow> string"
  uuid_idx :: nat
  verify :: "string \<Rightarrow> jwt_payload option"

type_synonym LambdaHandler = "lambda_context \<Rightarrow> world \<Rightarrow> (thrown + api_response) \<times> world"

definition uuidv4 :: "world \<Rightarrow> string \<times> world" where
  "uuidv4 w = (uuid_src w (uuid_idx w), w\<lparr>uuid_idx := Suc (uuid_idx w)\<rparr>)"

text \<open>\<open>createAuditLog\<close>: the \<open>put\<close> is wrapped in \<open>try/catch\<close>; the catch only logs.\<close>

definition createAuditLog :: "AuditLogEntry \<Rightarrow> world \<Rightarrow> world" where
  "createAuditLog entry w =
     (case audit_put_error w of
        None \<Rightarrow>
          w\<lparr>audit_items := audit_items w
               @ [entry\<lparr>ae_timestamp := now w,
                         ae_ttl := Some (now w div 1000 + 7 * 365 * 24 * 60 * 60)\<rparr>]\<rparr>
      | Some err \<Rightarrow>
          w\<lparr>console_error := console_error w @ [''Failed to create audit log:'']\<rparr>)"

fun message_of :: "thrown \<Rightarrow> string" where
  "message_of (Error m) = m"
| "message_of (TypeError m) = m"
| "message_of (SyntaxError m) = m"
| "message_of (AppError c code m status details) = m"
| "message_of (ExportedAppError c code m status details) = m"

fun code_of :: "thrown \<Rightarrow> string option" where
  "code_of (AppError c code m status details) = Some code"
| "code_of (ExportedAppError c code m status details) = Some code"
| "code_of e = None"

definition snapshot :: "json_text option \<Rightarrow> thrown + json option" where
  "snapshot t =
     (if \<not> text_truthy t then Inr None
      else case JSON_parse_text (the t) of
             Inl e \<Rightarrow> Inl e
           | Inr j \<Rightarrow> Inr (Some (sanitizeBody j)))"

text \<open>
  \<open>withAuditLog\<close>: \<open>try { return await handler(...) } catch (err) { throw err } finally
  { ... await createAuditLog(auditEntry) }\<close>.  An exception inside the \<open>finally\<close> block
  (a body that does not parse) replaces the handler's outcome.  The \<open>stack\<close> field,
  filled only under \<open>NODE_ENV=development\<close>, is left out.
\<close>

definition withAuditLog :: "string \<Rightarrow> bool \<Rightarrow> LambdaHandler \<Rightarrow> LambdaHandler" where
  "withAuditLog resourceType phiAccessed handler ctx w =
     (let startTime = now w;
          (res, w1) = handler ctx w;
          duration = now w1 - startTime;
          ev = event w1;
          (uuid, w2) = uuidv4 w1
      in case snapshot (ev_body ev) of
           Inl e \<Rightarrow> (Inl e, w2)
         | Inr requestBody \<Rightarrow>
        (case (case res of Inl err \<Rightarrow> Inr None | Inr response \<Rightarrow> snapshot (rs_body response)) of
           Inl e \<Rightarrow> (Inl e, w2)
         | Inr responseBody \<Rightarrow>
             (res,
              createAuditLog
                \<lparr>ae_id = uuid,
                 ae_timestamp = now w2,
                 ae_userId =
                   (case ev_cognitoIdentityId ev of
                      Some c \<Rightarrow> if c \<noteq> [] then c
                                else (case ev_userArn ev of
                                        Some a \<Rightarrow> if a \<noteq> [] then a else ''anonymous''
                                      | None \<Rightarrow> ''anonymous'')
                    | None \<Rightarrow> (case ev_userArn ev of
                                 Some a \<Rightarrow> if a \<noteq> [] then a else ''anonymous''
                               | None \<Rightarrow> ''anonymous'')),
                 ae_action = ev_httpMethod ev @ '' '' @ ev_path ev,
                 ae_resource = resourceType,
                 ae_resourceId = ev_pathParameters_id ev,
                 ae_method = ev_httpMethod ev,
                 ae_endpoint = ev_path ev,
                 ae_statusCode =
                   (case res of
                      Inl err \<Rightarrow> 500
                    | Inr response \<Rightarrow>
                        if rs_statusCode response \<noteq> 0 then rs_statusCode response else 200),
                 ae_ipAddress = ev_sourceIp ev,
                 ae_userAgent = map_of (ev_headers ev) ''User-Agent'',
                 ae_requestBody = requestBody,
                 ae_responseBody = responseBody,
                 ae_phiAccessed = phiAccessed,
                 ae_duration = duration,
                 ae_error =
                   (case res of Inl err \<Rightarrow> Some (message_of err, code_of err)
                    | Inr response \<Rightarrow> None),
                 ae_ttl = None\<rparr> w2)))"

section \<open>Error responder and the other middlewares (\<open>middleware/handler.ts\<close>)\<close>

definition error_headers :: "(string \<times> string) list" where
  "error_headers =
     [(''Content-Type'', ''application/json''),
      (''Cache-Control'', ''no-store, no-cache, must-revalidate, proxy-revalidate''),
      (''Pragma'', ''no-cache''), (''Expires'', ''0''), (''Surrogate-Control'', ''no-store'')]"

definition toResponse :: "string \<Rightarrow> string \<Rightarrow> nat \<Rightarrow> json \<Rightarrow> api_response" where
  "toResponse code msg status details =
     \<lparr>rs_statusCode = status, rs_headers = error_headers,
      rs_body = JSON_stringify
        (JObj [(''success'', JBool False),
               (''error'', JObj [(''code'', JStr code), (''message'', JStr msg),
                                 (''details'', details)])])\<rparr>"

definition is_security_error :: "thrown \<Rightarrow> bool" where
  "is_security_error e =
     (case e of AppError c code m status details \<Rightarrow> c = Unauthorized \<or> c = Forbidden
      | _ \<Rightarrow> False)"

definition or_unknown :: "string \<Rightarrow> string" where
  "or_unknown s = (if s = [] then ''unknown'' else s)"

text \<open>
  \<open>withErrorHandler\<close>: any error of the wrapped handler is logged and turned into a
  response; for \<open>UnauthorizedError\<close> and \<open>ForbiddenError\<close> an audit entry is written
  first.  Both tests, and \<open>error instanceof AppError\<close> after them, name the classes of
  \<open>handler.ts\<close>; an exported error fails all three and is answered as an unexpected
  error.
\<close>

definition withErrorHandler :: "LambdaHandler \<Rightarrow> LambdaHandler" where
  "withErrorHandler handler ctx w =
     (case handler ctx w of
        (Inr result, w1) \<Rightarrow> (Inr result, w1)
      | (Inl err, w1) \<Rightarrow>
          (let w2 = w1\<lparr>console_error := console_error w1 @ [''Error:'']\<rparr>;
               ev = event w2;
               w3 = (case err of
                       AppError c code m status details \<Rightarrow>
                         if is_security_error err then
                           createAuditLog
                             \<lparr>ae_id = awsRequestId ctx,
                              ae_timestamp = now w2,
                              ae_userId =
                                (case ev_cognitoIdentityId ev of
                                   Some c \<Rightarrow> if c \<noteq> [] then c else ''anonymous''
                                 | None \<Rightarrow> ''anonymous''),
                              ae_action = ''LOGIN_FAILED'',
                              ae_resource = ev_path ev,
                              ae_resourceId = ev_pathParameters_id ev,
                              ae_method = ev_httpMethod ev,
                              ae_endpoint = ev_path ev,
                              ae_statusCode = status,
                              ae_ipAddress = or_unknown (ev_sourceIp ev),
                              ae_userAgent =
                                Some (case map_of (ev_headers ev) ''User-Agent'' of
                                        Some a \<Rightarrow> or_unknown a | None \<Rightarrow> ''unknown''),
                              ae_requestBody = None,
                              ae_responseBody = None,
                              ae_phiAccessed = False,
                              ae_duration = now w2 - remainingTimeInMillis ctx,
                              ae_error = Some (m, Some code),
                              ae_ttl = None\<rparr> w2
                         else w2
                     | _ \<Rightarrow> w2)
           in case err of
                AppError c code m status details \<Rightarrow> (Inr (toResponse code m status details), w3)
              | _ \<Rightarrow>
                (Inr (toResponse ''INTERNAL_SERVER_ERROR'' ''An unexpected error occurred'' 500
                        JUndefined), w3)))"

definition security_headers :: "(string \<times> string) list" where
  "security_headers =
     [(''Strict-Transport-Security'', ''max-age=31536000; includeSubDomains; preload''),
      (''Content-Security-Policy'', ''default-src 'self'' @ [CHR 0x27]),
      (''X-Content-Type-Options'', ''nosniff''),
      (''X-Frame-Options'', ''DENY''),
      (''X-XSS-Protection'', ''1; mode=block''),
      (''Referrer-Policy'', ''strict-origin-when-cross-origin''),
      (''Cache-Control'', ''no-store, no-cache, must-revalidate, proxy-revalidate''),
      (''Pragma'', ''no-cache''), (''Expires'', ''0''), (''Surrogate-Control'', ''no-store'')]"

definition withSecurityHeaders :: "LambdaHandler \<Rightarrow> LambdaHandler" where
  "withSecurityHeaders handler ctx w =
     (case handler ctx w of
        (Inl err, w1) \<Rightarrow> (Inl err, w1)
      | (Inr response, w1) \<Rightarrow>
          (Inr (response\<lparr>rs_headers :=
                  fold (\<lambda>(k, v). AList.update k v) security_headers (rs_headers response)\<rparr>),
           w1))"

text \<open>
  \<open>validateRequest(schema)\<close>.  The schema is any object.  If it has a \<open>validate\<close>
  method, that answers either the validation details (path and message of each failure)
  or the validated value; if it has none (\<open>None\<close>), the call \<open>schema.validate(...)\<close>
  raises a \<open>TypeError\<close> inside the \<open>try\<close> block, which the \<open>catch\<close> turns into
  \<open>ValidationError('Invalid request body')\<close>.  The wrapped handler's promise is returned
  without \<open>await\<close>, so its rejection is not caught here.
\<close>

type_synonym validate = "json \<Rightarrow> (string \<times> string) list + json"

definition validateRequest :: "validate option \<Rightarrow> LambdaHandler \<Rightarrow> LambdaHandler" where
  "validateRequest schema handler ctx w =
     (case (if text_truthy (ev_body (event w)) then JSON_parse_text (the (ev_body (event w)))
            else Inr (JObj [])) of
        Inl e \<Rightarrow> (Inl (ValidationError ''Invalid request body'' JUndefined), w)
      | Inr data \<Rightarrow>
          (case schema of
             None \<Rightarrow> (Inl (ValidationError ''Invalid request body'' JUndefined), w)
           | Some schema_validate \<Rightarrow>
          (case schema_validate data of
             Inl details \<Rightarrow>
               (Inl (ValidationError ''Validation failed''
                       (JObj (fold (\<lambda>(k, m). AList.update k (JStr m)) details []))), w)
           | Inr v \<Rightarrow>
               handler ctx (w\<lparr>event := (event w)\<lparr>ev_body := JSON_stringify v\<rparr>\<rparr>))))"

text \<open>
  \<open>patientSchema\<close> (\<open>patient-service/src/validation.ts\<close>) is the plain object
  \<open>{ createPatient, updatePatient, searchPatient }\<close> holding three Joi schemas; it has
  no \<open>validate\<close> of its own.
\<close>

definition patientSchema :: "validate option" where
  "patientSchema = None"

section \<open>Authentication (\<open>middleware/auth.ts\<close>, \<open>patient-service/src/lambda.ts\<close>)\<close>

definition or_default :: "string option \<Rightarrow> string \<Rightarrow> string" where
  "or_default v d = (case v of None \<Rightarrow> d | Some s \<Rightarrow> if s = [] then d else s)"

definition authenticate :: "string \<Rightarrow> world \<Rightarrow> thrown + AuthContext" where
  "authenticate token w =
     (case verify w token of
        None \<Rightarrow> Inl (Error ''Invalid or expired token'')
      | Some payload \<Rightarrow>
          Inr \<lparr>userId = jwt_sub payload,
               email = or_default (jwt_email payload) '''',
               role = or_default (jwt_role payload) ''patient'',
               userType = or_default (jwt_userType payload) ''client'',
               guardianFor = None\<rparr>)"

text \<open>
  \<open>withAuth\<close> of the patient service.  Its \<open>UnauthorizedError\<close> is the class imported from
  the package, that is the one of \<open>./errors\<close>; \<open>authenticate\<close> throws a plain \<open>Error\<close>.
\<close>

definition withAuth :: "LambdaHandler \<Rightarrow> LambdaHandler" where
  "withAuth handler ctx w =
     (case ev_request_authorization (event w) of
        None \<Rightarrow> (Inl (exported_UnauthorizedError ''No authentication token provided''), w)
      | Some token \<Rightarrow>
          if token = []
          then (Inl (exported_UnauthorizedError ''No authentication token provided''), w)
          else (case authenticate token w of
                  Inl e \<Rightarrow> (Inl e, w)
                | Inr authContext \<Rightarrow>
                    handler ctx (w\<lparr>event := (event w)\<lparr>ev_authContext := Some authContext\<rparr>\<rparr>)))"

text \<open>\<open>compose(...middlewares)(handler)\<close> is \<open>middlewares.reduceRight\<close>.\<close>

definition compose :: "(LambdaHandler \<Rightarrow> LambdaHandler) list \<Rightarrow> LambdaHandler \<Rightarrow> LambdaHandler" where
  "compose middlewares handler = foldr (\<lambda>middleware acc. middleware acc) middlewares handler"

definition withMiddleware :: "LambdaHandler \<Rightarrow> LambdaHandler" where
  "withMiddleware =
     compose [withErrorHandler, withSecurityHeaders, withAuth,
              withAuditLog ''PATIENT'' True, validateRequest patientSchema]"

section \<open>A sample call\<close>

definition demo_event :: api_event where
  "demo_event =
     \<lparr>ev_path = ''/graphql/getPatient'', ev_httpMethod = ''POST'',
      ev_headers = [(''User-Agent'', ''curl/8'')],
      ev_body = Some (Text (JObj [(''id'', JStr ''u1''),
                                  (''user'', JObj [(''password'', JStr ''x'')])])),
      ev_pathParameters_id = None, ev_cognitoIdentityId = None, ev_userArn = None,
      ev_sourceIp = ''10.0.0.1'', ev_request_authorization = Some ''token-u2'',
      ev_authContext = None\<rparr>"

definition demo_world :: world where
  "demo_world =
     \<lparr>event = demo_event, audit_items = [], audit_put_error = None, console_error = [],
      now = 1700000000000, uuid_src = (\<lambda>n. ''uuid-'' @ replicate n (CHR ''i'')), uuid_idx = 0,
      verify = (\<lambda>t. if t = ''token-u2''
                     then Some \<lparr>jwt_sub = ''u2'', jwt_email = None,
                                 jwt_role = Some ''PATIENT'', jwt_userType = Some ''client''\<rparr>
                     else None)\<rparr>"

definition demo_context :: lambda_context where
  "demo_context = \<lparr>awsRequestId = ''req-1'', remainingTimeInMillis = 3000\<rparr>"

text \<open>The same call without an \<open>authorization\<close> header.\<close>

definition anonymous_world :: world where
  "anonymous_world = demo_world\<lparr>event := demo_event\<lparr>ev_request_authorization := None\<rparr>\<rparr>"

definition succeeding :: LambdaHandler where
  "succeeding ctx w =
     (Inr \<lparr>rs_statusCode = 200, rs_headers = [(''Content-Type'', ''application/json'')],
           rs_body = JSON_stringify (JObj [(''token'', JStr ''t''),
                                           (''session'', JObj [(''token'', JStr ''t'')])])\<rparr>, w)"

section \<open>\<open>sanitizeSensitiveData\<close> on the object heap (\<open>utils/middleware.ts\<close>)\<close>

text \<open>
  Whether a function mutates its argument is a question about object identity, so here
  objects and arrays live in a heap and values refer to them by address.  A new object is
  allocated at the end of the heap.  An own property of an array is one of its indices.
\<close>

datatype jsval = VUndefined | VNull | VBool bool | VNum int | VStr string | VRef nat

datatype jsobj = Obj "(string \<times> jsval) list" | Arr "jsval list"

datatype jskey = Name string | Index nat

type_synonym heap = "jsobj list"

fun truthy_v :: "jsval \<Rightarrow> bool" where
  "truthy_v VUndefined = False"
| "truthy_v VNull = False"
| "truthy_v (VBool b) = b"
| "truthy_v (VNum n) = (n \<noteq> 0)"
| "truthy_v (VStr s) = (s \<noteq> [])"
| "truthy_v (VRef a) = True"

text \<open>\<open>typeof value === 'object'\<close> holds of objects, arrays and \<open>null\<close>.\<close>

fun typeof_object :: "jsval \<Rightarrow> bool" where
  "typeof_object (VRef a) = True"
| "typeof_object VNull = True"
| "typeof_object v = False"

fun entries :: "jsobj \<Rightarrow> (jskey \<times> jsval) list" where
  "entries (Obj kvs) = map (\<lambda>(k, v). (Name k, v)) kvs"
| "entries (Arr xs) = map (\<lambda>(i, v). (Index i, v)) (enumerate 0 xs)"

text \<open>The assignment \<open>sanitized[key] = v\<close> on the object at address \<open>s\<close>.\<close>

definition assign_key :: "heap \<Rightarrow> nat \<Rightarrow> jskey \<Rightarrow> jsval \<Rightarrow> heap" where
  "assign_key h s k v =
     (if s < length h then
        h[s := (case (h ! s, k) of
                  (Obj kvs, Name nm) \<Rightarrow> Obj (AList.update nm v kvs)
                | (Arr xs, Index i) \<Rightarrow> Arr (xs[i := v])
                | (ob, _) \<Rightarrow> ob)]
      else h)"

definition toLowerCase :: "string \<Rightarrow> string" where
  "toLowerCase s =
     map (\<lambda>c. if (65::nat) \<le> of_char c \<and> of_char c \<le> (90::nat)
               then char_of (of_char c + (32::nat)) else c) s"

definition sensitiveFields :: "string list" where
  "sensitiveFields =
     [''password'', ''ssn'', ''creditCard'', ''token'', ''secret'', ''authorization'']"

text \<open>The key of an array entry is a string of decimal digits and matches no listed name.\<close>

fun is_sensitive :: "jskey \<Rightarrow> bool" where
  "is_sensitive (Name k) = (toLowerCase k \<in> set sensitiveFields)"
| "is_sensitive (Index i) = False"

text \<open>
  \<open>sanitizeSensitiveData\<close>, with the depth of the call stack that is left as first
  argument: a cyclic structure recurses until the stack is exhausted and the call ends in
  a \<open>RangeError\<close>, here the result \<open>None\<close>.  \<open>sanitize_entries\<close> is the \<open>for\<close> loop over
  \<open>Object.entries(sanitized)\<close>, taken before the loop starts.
\<close>

fun sanitizeSensitiveData :: "nat \<Rightarrow> heap \<Rightarrow> jsval \<Rightarrow> heap \<times> jsval option"
  and sanitize_entries :: "nat \<Rightarrow> heap \<Rightarrow> nat \<Rightarrow> (jskey \<times> jsval) list \<Rightarrow> heap \<times> bool"
where
  "sanitizeSensitiveData 0 h data = (h, None)"
| "sanitizeSensitiveData (Suc n) h data =
     (if \<not> truthy_v data then (h, Some data)
      else case data of
        VRef a \<Rightarrow>
          (if a < length h then
             (case sanitize_entries n (h @ [h ! a]) (length h) (entries (h ! a)) of
                (h', True) \<Rightarrow> (h', Some (VRef (length h)))
              | (h', False) \<Rightarrow> (h', None))
           else (h, Some data))
      | _ \<Rightarrow> (h, Some data))"
| "sanitize_entries n h s [] = (h, True)"
| "sanitize_entries n h s ((k, v) # es) =
     (if is_sensitive k then sanitize_entries n (assign_key h s k (VStr ''***REDACTED***'')) s es
      else if typeof_object v then
        (case sanitizeSensitiveData n h v of
           (h', None) \<Rightarrow> (h', False)
         | (h', Some r) \<Rightarrow> sanitize_entries n (assign_key h' s k r) s es)
      else sanitize_entries n h s es)"


section \<open>PHI cipher: the local authenticated-encryption path\<close>

subsection \<open>Strings as UTF-16, buffers as bytes\<close>

text \<open>
  The plaintext is a JavaScript string, a sequence of 16-bit code units that need not be
  well-formed UTF-16.  Writing it into the cipher as \<open>'utf8'\<close> pairs the surrogates into
  code points, replaces a surrogate without partner by U+FFFD, and encodes each code
  point in one to four bytes.
\<close>

type_synonym byte = "8 word"
type_synonym utf16 = "16 word list"

definition is_high :: "nat \<Rightarrow> bool" where
  "is_high u = (0xD800 \<le> u \<and> u < 0xDC00)"

definition is_low :: "nat \<Rightarrow> bool" where
  "is_low u = (0xDC00 \<le> u \<and> u < 0xE000)"

fun code_points :: "nat list \<Rightarrow> nat list" where
  "code_points [] = []"
| "code_points [u] = [if is_high u \<or> is_low u then 0xFFFD else u]"
| "code_points (u # v # us) =
     (if is_high u \<and> is_low v
      then (0x10000 + (u - 0xD800) * 1024 + (v - 0xDC00)) # code_points us
      else (if is_high u \<or> is_low u then 0xFFFD else u) # code_points (v # us))"

fun well_formed :: "nat list \<Rightarrow> bool" where
  "well_formed [] = True"
| "well_formed [u] = (\<not> is_high u \<and> \<not> is_low u)"
| "well_formed (u # v # us) =
     (if is_high u then is_low v \<and> well_formed us
      else \<not> is_low u \<and> well_formed (v # us))"

definition utf8_bytes :: "nat \<Rightarrow> nat list" where
  "utf8_bytes c =
     (if c < 0x80 then [c]
      else if c < 0x800 then [0xC0 + c div 64, 0x80 + c mod 64]
      else if c < 0x10000 then [0xE0 + c div 4096, 0x80 + c div 64 mod 64, 0x80 + c mod 64]
      else [0xF0 + c div 262144, 0x80 + c div 4096 mod 64, 0x80 + c div 64 mod 64,
            0x80 + c mod 64])"

definition utf8_encode :: "utf16 \<Rightarrow> byte list" where
  "utf8_encode s = map of_nat (concat (map utf8_bytes (code_points (map unat s))))"

text \<open>
  Reading bytes back as \<open>'utf8'\<close>: the decoder keeps the number of continuation bytes
  still needed, the code point so far and the range allowed for the next byte.  A byte
  that does not fit yields U+FFFD and is looked at again as the start of a character; so
  does input that ends inside a character.
\<close>

fun utf8_dec :: "nat \<Rightarrow> nat \<Rightarrow> nat \<Rightarrow> nat \<Rightarrow> nat list \<Rightarrow> nat list" where
  "utf8_dec needed cp lo hi [] = (if needed = 0 then [] else [0xFFFD])"
| "utf8_dec 0 cp lo hi (b # bs) =
     (if b < 0x80 then b # utf8_dec 0 0 0x80 0xBF bs
      else if 0xC2 \<le> b \<and> b \<le> 0xDF then utf8_dec (Suc 0) (b mod 32) 0x80 0xBF bs
      else if 0xE0 \<le> b \<and> b \<le> 0xEF
      then utf8_dec (Suc (Suc 0)) (b mod 16) (if b = 0xE0 then 0xA0 else 0x80)
             (if b = 0xED then 0x9F else 0xBF) bs
      else if 0xF0 \<le> b \<and> b \<le> 0xF4
      then utf8_dec (Suc (Suc (Suc 0))) (b mod 8) (if b = 0xF0 then 0x90 else 0x80)
             (if b = 0xF4 then 0x8F else 0xBF) bs
      else 0xFFFD # utf8_dec 0 0 0x80 0xBF bs)"
| "utf8_dec (Suc n) cp lo hi (b # bs) =
     (if b < lo \<or> hi < b then 0xFFFD # utf8_dec 0 0 0x80 0xBF (b # bs)
      else if n = 0 then (cp * 64 + b mod 64) # utf8_dec 0 0 0x80 0xBF bs
      else utf8_dec n (cp * 64 + b mod 64) 0x80 0xBF bs)"

definition utf16_units :: "nat \<Rightarrow> nat list" where
  "utf16_units c =
     (if c < 0x10000 then [c]
      else [0xD800 + (c - 0x10000) div 1024, 0xDC00 + (c - 0x10000) mod 1024])"

definition utf8_decode :: "byte list \<Rightarrow> utf16" where
  "utf8_decode bs = map of_nat (concat (map utf16_units (utf8_dec 0 0 0x80 0xBF (map unat bs))))"

text \<open>The code points that UTF-8 and well-formed UTF-16 can express.\<close>

definition scalar :: "nat \<Rightarrow> bool" where
  "scalar c = (c < 0x110000 \<and> \<not> (0xD800 \<le> c \<and> c < 0xE000))"

subsection \<open>Hexadecimal text and the packed triplet\<close>

text \<open>
  \<open>buf.toString('hex')\<close> writes two lower-case digits per byte.  Decoding
  (\<open>Buffer.from(s, 'hex')\<close>) accepts both cases and stops at the first pair that is not
  two hexadecimal digits, or at a single trailing character.  The packed value, and the
  input of \<open>decryptPHI\<close>, are taken as strings of single-byte characters.
\<close>

definition hex_digit :: "nat \<Rightarrow> char" where
  "hex_digit n = ''0123456789abcdef'' ! n"

definition hex_encode :: "byte list \<Rightarrow> string" where
  "hex_encode bs = concat (map (\<lambda>b. [hex_digit (unat b div 16), hex_digit (unat b mod 16)]) bs)"

definition hex_value :: "char \<Rightarrow> nat option" where
  "hex_value c =
     (let n = (of_char c :: nat) in
      if 48 \<le> n \<and> n \<le> 57 then Some (n - 48)
      else if 97 \<le> n \<and> n \<le> 102 then Some (n - 87)
      else if 65 \<le> n \<and> n \<le> 70 then Some (n - 55)
      else None)"

fun hex_decode :: "string \<Rightarrow> byte list" where
  "hex_decode (a # b # cs) =
     (case (hex_value a, hex_value b) of
        (Some x, Some y) \<Rightarrow> of_nat (16 * x + y) # hex_decode cs
      | _ \<Rightarrow> [])"
| "hex_decode cs = []"

text \<open>\<open>s.split(':')\<close>: always at least one piece.\<close>

fun split_colon :: "string \<Rightarrow> string list" where
  "split_colon [] = [[]]"
| "split_colon (c # cs) =
     (case split_colon cs of
        piece # pieces \<Rightarrow> if c = CHR '':'' then [] # piece # pieces else (c # piece) # pieces
      | [] \<Rightarrow> [[c]])"

subsection \<open>The cipher\<close>

text \<open>
  What the two functions use of the platform's cipher object.  \<open>gcm_seal key iv
  plaintext\<close> is \<open>createCipheriv\<close>, \<open>update\<close>, \<open>final\<close> and \<open>getAuthTag\<close>: ciphertext
  and tag, or nothing when key or IV are refused.  \<open>gcm_open key iv tag\<close> is
  \<open>createDecipheriv\<close> and \<open>setAuthTag\<close>, refused or not; applied to the ciphertext it is
  \<open>update\<close> and \<open>final\<close>, which yields the plaintext only if the tag verifies.
\<close>

record gcm =
  gcm_seal :: "byte list \<Rightarrow> byte list \<Rightarrow> byte list \<Rightarrow> (byte list \<times> byte list) option"
  gcm_open :: "byte list \<Rightarrow> byte list \<Rightarrow> byte list \<Rightarrow> (byte list \<Rightarrow> byte list option) option"

text \<open>
  \<open>encryptPHI(data, key)\<close>; the 16 bytes drawn by \<open>crypto.randomBytes(16)\<close> are the
  argument \<open>iv\<close>.
\<close>

definition encryptPHI :: "gcm \<Rightarrow> byte list \<Rightarrow> utf16 \<Rightarrow> byte list \<Rightarrow> thrown + string" where
  "encryptPHI g iv data key =
     (case gcm_seal g key iv (utf8_encode data) of
        None \<Rightarrow> Inl (Error ''Invalid key length'')
      | Some (encrypted, authTag) \<Rightarrow>
          Inr (hex_encode iv @ '':'' @ hex_encode authTag @ '':'' @ hex_encode encrypted))"

text \<open>
  \<open>decryptPHI(encryptedData, key)\<close>.  The destructuring takes the first three pieces and
  ignores any others; a missing piece is \<open>undefined\<close>, on which \<open>Buffer.from\<close> and
  \<open>update\<close> raise a \<open>TypeError\<close>.  \<open>update\<close> also refuses hexadecimal text of odd
  length.  The plaintext is assembled only after \<open>final\<close> has verified the tag.
\<close>

definition decryptPHI :: "gcm \<Rightarrow> string \<Rightarrow> byte list \<Rightarrow> thrown + utf16" where
  "decryptPHI g encryptedData key =
     (case split_colon encryptedData of
        ivHex # authTagHex # rest \<Rightarrow>
          (case gcm_open g key (hex_decode ivHex) (hex_decode authTagHex) of
             None \<Rightarrow> Inl (Error ''Invalid key, initialization vector or authentication tag'')
           | Some decipher \<Rightarrow>
               (case rest of
                  [] \<Rightarrow> Inl (TypeError ''The \"data\" argument must be of type string'')
                | encrypted # ignored \<Rightarrow>
                    if odd (length encrypted)
                    then Inl (TypeError ''The argument 'encoding' is invalid for data'')
                    else (case decipher (hex_decode encrypted) of
                            None \<Rightarrow>
                              Inl (Error ''Unsupported state or unable to authenticate data'')
                          | Some plain \<Rightarrow> Inr (utf8_decode plain))))
      | _ \<Rightarrow> Inl (TypeError ''The first argument must be of type string''))"

text \<open>
  The platform's cipher object for \<open>'aes-256-gcm'\<close>, as the two functions create it:
  \<open>createCipheriv\<close> and \<open>createDecipheriv\<close> are called without the option
  \<open>authTagLength\<close>, and the tag handed to \<open>setAuthTag\<close> is not checked for its length.
  The block cipher is a parameter: encryption and decryption in counter mode, and the
  16-byte tag computed over the ciphertext.  A key has 32 bytes and an IV at least one,
  or the object is refused.  \<open>getAuthTag\<close> gives the whole tag.  \<open>setAuthTag\<close> accepts a
  tag of 4, 8, 12, 13, 14, 15 or 16 bytes, and \<open>final\<close> compares as many bytes of the
  computed tag as the given tag has.
\<close>

record aead =
  aead_encrypt :: "byte list \<Rightarrow> byte list \<Rightarrow> byte list \<Rightarrow> byte list"
  aead_decrypt :: "byte list \<Rightarrow> byte list \<Rightarrow> byte list \<Rightarrow> byte list"
  aead_tag :: "byte list \<Rightarrow> byte list \<Rightarrow> byte list \<Rightarrow> byte list"

definition tag_lengths :: "nat list" where
  "tag_lengths = [4, 8, 12, 13, 14, 15, 16]"

definition node_gcm :: "aead \<Rightarrow> gcm" where
  "node_gcm a =
     \<lparr>gcm_seal = (\<lambda>key iv plain.
         if length key \<noteq> 32 \<or> iv = [] then None
         else Some (aead_encrypt a key iv plain,
                    aead_tag a key iv (aead_encrypt a key iv plain))),
      gcm_open = (\<lambda>key iv tag.
         if length key \<noteq> 32 \<or> iv = [] \<or> length tag \<notin> set tag_lengths then None
         else Some (\<lambda>encrypted.
                if take (length tag) (aead_tag a key iv encrypted) = tag
                then Some (aead_decrypt a key iv encrypted) else None))\<rparr>"

text \<open>
  A small block cipher to run the functions on concrete values: it shifts every byte by
  the first key byte, and its tag is sixteen bytes counted up from the sum of key, IV
  and ciphertext.
\<close>

definition toy_tag :: "byte list \<Rightarrow> byte list \<Rightarrow> byte list \<Rightarrow> byte list" where
  "toy_tag key iv encrypted =
     map (\<lambda>d. sum_list key + sum_list iv + sum_list encrypted + d)
         [0, 1, 2, 3, 4, 5, 6, 7, 8, 9, 10, 11, 12, 13, 14, 15]"

definition toy_aead :: aead where
  "toy_aead =
     \<lparr>aead_encrypt = (\<lambda>key iv plain. map (\<lambda>b. b + hd key) plain),
      aead_decrypt = (\<lambda>key iv encrypted. map (\<lambda>b. b - hd key) encrypted),
      aead_tag = toy_tag\<rparr>"

definition toy_gcm :: gcm where
  "toy_gcm = node_gcm toy_aead"

definition demo_key :: "byte list" where
  "demo_key = replicate 32 7"

definition demo_iv :: "byte list" where
  "demo_iv = [0xA0, 1, 2, 3, 4, 5, 6, 7, 8, 9, 10, 11, 12, 13, 14, 0xFF]"

definition other_iv :: "byte list" where
  "other_iv = [0xA1, 1, 2, 3, 4, 5, 6, 7, 8, 9, 10, 11, 12, 13, 14, 0xFF]"

text \<open>The string \<open>123-45-6789\<close> and a string that is one unpaired surrogate.\<close>

definition demo_ssn :: utf16 where
  "demo_ssn = [0x31, 0x32, 0x33, 0x2D, 0x34, 0x35, 0x2D, 0x36, 0x37, 0x38, 0x39]"

definition lone_surrogate :: utf16 where
  "lone_surrogate = [0xD800]"

section \<open>Results\<close>

subsection \<open>Masking\<close>

lemma js_substring_prefix:
  "0 \<le> n \<Longrightarrow> js_substring s 0 n = take (nat n) s"
  by (simp add: js_substring_def js_clamp_def Let_def min_def max_def)

lemma js_substring_from_suffix:
  "0 \<le> n \<Longrightarrow> n \<le> int (length s) \<Longrightarrow> js_substring_from s n = drop (nat n) s"
  by (simp add: js_substring_from_def js_clamp_def min_def max_def)

text \<open>
  C9, as stated, fails: the run of stars is not of one fixed length.  For a 16-character
  input and \<open>visibleChars = 4\<close> the middle is eight stars, for a 12-character input it is
  four; and an input of at most \<open>2 * visibleChars\<close> characters is answered with the bare
  four stars, revealing nothing.
\<close>

theorem mask_fixed_length_counterexample:
  "maskSensitiveData ''0123456789ABCDEF'' 4 = ''0123********CDEF''
   \<and> maskSensitiveData ''0123456789AB'' 4 = ''0123****89AB''
   \<and> length (maskSensitiveData ''0123456789ABCDEF'' 4) - 2 * 4
       \<noteq> length (maskSensitiveData ''0123456789AB'' 4) - 2 * 4
   \<and> maskSensitiveData ''01234567'' 4 = ''****''"
  by (simp add: maskSensitiveData_def js_substring_def js_substring_from_def js_clamp_def
      eval_nat_numeral)

text \<open>
  C9, amended: for a count \<open>n \<ge> 0\<close>, an input longer than \<open>2 * n\<close> code units is
  rendered as its first \<open>n\<close> code units, then \<open>max (length - 2 * n) 4\<close> stars, then its
  last \<open>n\<close> code units; any other input (the empty string included) is rendered as
  exactly four stars.  The function reads nothing but its two arguments.
\<close>

theorem mask_shape:
  "0 \<le> n \<Longrightarrow>
   maskSensitiveData data n =
     (if int (length data) \<le> 2 * n then ''****''
      else take (nat n) data
           @ replicate (max (length data - 2 * nat n) 4) (CHR ''*'')
           @ drop (length data - nat n) data)"
proof -
  assume n: "0 \<le> n"
  show ?thesis
  proof (cases "int (length data) \<le> 2 * n")
    case True
    then show ?thesis by (simp add: maskSensitiveData_def mult.commute)
  next
    case False
    then have ne: "data \<noteq> []" using n by auto
    have le: "int (length data) - n \<le> int (length data)" "0 \<le> int (length data) - n"
      using n False by auto
    have d: "nat (int (length data) - n) = length data - nat n"
      using n by (simp add: nat_diff_distrib')
    have m: "nat (max (int (length data) - n * 2) 4) = max (length data - 2 * nat n) 4"
      using n False by (simp add: max_def nat_diff_distrib' nat_mult_distrib) linarith
    show ?thesis
      using False ne n
      by (simp add: maskSensitiveData_def Let_def js_substring_prefix
          js_substring_from_suffix [OF le(2) le(1)] d m mult.commute)
  qed
qed

theorem mask_shape_witness:
  "(0::int) \<le> 2 \<and> maskSensitiveData ''123-45-6789'' 2 = ''12*******89''"
  using mask_shape [of 2 "''123-45-6789''"] by (simp add: eval_nat_numeral)

subsection \<open>Order of lookup, decision and use\<close>










subsection \<open>What a refused caller is told\<close>

lemma joined_owner:
  "jprop (JObj (assign_all [(''mrn'', m), (''patient_user_id'', ow), (''patient_first_name'', a),
      (''patient_last_name'', b), (''provider_first_name'', c), (''provider_last_name'', d)] r))
     ''patient_user_id'' = ow"
  by (simp add: assign_all_def update_conv')

text \<open>
  C4, as stated, fails: a patient who asks for another patient's record is told
  \<open>Access denied to medical record\<close>, and one who asks for a record that does not exist
  is told \<open>Medical record not found\<close>; likewise for appointments.  Both are plain
  \<open>Error\<close>s, and the two runs are told apart by the message.
\<close>

theorem denial_message_counterexample:
  "fst (getMedicalRecord ''r1'' u2 demo_db) = Inl (Error ''Access denied to medical record'')
   \<and> fst (getMedicalRecord ''r0'' u2 demo_db) = Inl (Error ''Medical record not found'')
   \<and> fst (getMedicalRecord ''r1'' u2 demo_db) \<noteq> fst (getMedicalRecord ''r0'' u2 demo_db)
   \<and> fst (getAppointment ''a1'' u2 demo_db) = Inl (Error ''Access denied to appointment'')
   \<and> fst (getAppointment ''a0'' u2 demo_db) = Inl (Error ''Appointment not found'')
   \<and> fst (getAppointment ''a1'' u2 demo_db) \<noteq> fst (getAppointment ''a0'' u2 demo_db)"
  by code_simp

text \<open>
  C4, amended: with the store reachable, a patient refused by the ownership check of an
  existing resource always gets the same plain error for that resource type, whatever
  the resource holds (\<open>Access denied to medical record\<close>, \<open>Access denied to
  appointment\<close>), and a patient asking for a resource that does not exist always gets
  \<open>Medical record not found\<close>, \<open>Appointment not found\<close>.
\<close>

theorem denial_messages:
  "custom_role idn = Some ''PATIENT'' \<Longrightarrow>
   (failing st ''medical_records'' = None \<longrightarrow>
     (find_by ''id'' (JStr i) (tables st ''medical_records'') = None
        \<longrightarrow> fst (getMedicalRecord i idn st) = Inl (Error ''Medical record not found''))
     \<and> (\<forall>mr. find_by ''id'' (JStr i) (tables st ''medical_records'') = Some mr
              \<and> record_owner st mr \<noteq> JStr (sub idn)
        \<longrightarrow> fst (getMedicalRecord i idn st) = Inl (Error ''Access denied to medical record'')))
   \<and> (failing st ''appointments'' = None \<longrightarrow>
     (find_by ''id'' (JStr i) (tables st ''appointments'') = None
        \<longrightarrow> fst (getAppointment i idn st) = Inl (Error ''Appointment not found''))
     \<and> (\<forall>a. find_by ''id'' (JStr i) (tables st ''appointments'') = Some a
              \<and> record_owner st a \<noteq> JStr (sub idn)
        \<longrightarrow> fst (getAppointment i idn st) = Inl (Error ''Access denied to appointment'')))"
  by (simp add: getMedicalRecord_def medical_record_query_def getAppointment_def
        appointment_query_def record_owner_def Let_def joined_owner del: jprop.simps)

theorem denial_messages_witness:
  "custom_role u2 = Some ''PATIENT''
   \<and> failing demo_db ''medical_records'' = None
   \<and> find_by ''id'' (JStr ''r0'') (tables demo_db ''medical_records'') = None
   \<and> fst (getMedicalRecord ''r0'' u2 demo_db) = Inl (Error ''Medical record not found'')
   \<and> find_by ''id'' (JStr ''r1'') (tables demo_db ''medical_records'')
         = Some (hd (demo_tables ''medical_records''))
   \<and> record_owner demo_db (hd (demo_tables ''medical_records'')) \<noteq> JStr (sub u2)
   \<and> fst (getMedicalRecord ''r1'' u2 demo_db) = Inl (Error ''Access denied to medical record'')
   \<and> failing demo_db ''appointments'' = None
   \<and> find_by ''id'' (JStr ''a0'') (tables demo_db ''appointments'') = None
   \<and> fst (getAppointment ''a0'' u2 demo_db) = Inl (Error ''Appointment not found'')"
proof -
  have a: "custom_role u2 = Some ''PATIENT''" by (simp add: u2_def)
  have b: "failing demo_db ''medical_records'' = None" "failing demo_db ''appointments'' = None"
    by (simp_all add: demo_db_def)
  have c: "find_by ''id'' (JStr ''r0'') (tables demo_db ''medical_records'') = None"
    "find_by ''id'' (JStr ''a0'') (tables demo_db ''appointments'') = None"
    by code_simp+
  have d: "find_by ''id'' (JStr ''r1'') (tables demo_db ''medical_records'')
         = Some (hd (demo_tables ''medical_records''))"
    by code_simp
  have e: "record_owner demo_db (hd (demo_tables ''medical_records'')) \<noteq> JStr (sub u2)"
    by code_simp
  show ?thesis
    using denial_messages [OF a, of demo_db "''r0''"] denial_messages [OF a, of demo_db "''a0''"]
      denial_messages [OF a, of demo_db "''r1''"] a b c d e
    by simp
qed

subsection \<open>A patient's own record\<close>

lemma patient_self_update_refused:
  "role ctx = ''PATIENT'' \<Longrightarrow> userId ctx = i \<Longrightarrow> i \<noteq> [] \<Longrightarrow> truthy input \<Longrightarrow>
   baseHandler_updatePatient ctx (Some i) input st = (Inl (Error ''Unauthorized''), st)"
  by (simp add: baseHandler_updatePatient_def hasPatientAccess_def updatePatient_def
        toFunctionIdentity_def)

text \<open>
  C5: patient \<open>u1\<close> passes \<open>hasPatientAccess\<close> for their own id and reads their own
  record, but the update of the same record is refused: \<open>updatePatient\<close> admits only
  \<open>PROVIDER\<close>, \<open>ADMIN\<close> and \<open>NURSE\<close>, although the handler's arm is commented
  ``Only staff or self can update patient info''.
\<close>

theorem patient_self_update_denied:
  "hasPatientAccess patient_u1 ''u1''
   \<and> fst (baseHandler_getPatient patient_u1 (Some ''u1'') demo_db)
       = Inr (JObj [(''id'', JStr ''p1''), (''user_id'', JStr ''u1''), (''mrn'', JStr ''MRN000001'')])
   \<and> fst (baseHandler_updatePatient patient_u1 (Some ''u1'')
             (JObj [(''preferredLanguage'', JStr ''fr'')]) demo_db)
       = Inl (Error ''Unauthorized'')"
  by code_simp

subsection \<open>A failing audit write in the services\<close>

lemma logHipaaEvent_propagates:
  "failing st ''audit_logs'' = Some e \<Longrightarrow> fst (logHipaaEvent u a r i p st) = Inl e"
  by (simp add: logHipaaEvent_def randomUUID_def db_insert_def)

text \<open>
  C8: with the \<open>audit_logs\<close> table unavailable, the owner's read of their own record
  fetches, passes the check, decrypts and writes the access log, and then fails with the
  store's error, because \<open>logHipaaEvent\<close> awaits \<open>db.insert\<close> unguarded; the same
  happens in \<open>getAppointment\<close>.
\<close>

theorem hipaa_log_failure_propagates:
  "fst (getMedicalRecord ''r1'' u1 audit_down) = Inl (Error ''Database unavailable'')
   \<and> events_of (getMedicalRecord ''r1'' u1) audit_down =
       [Fetched ''medical_records''
          (Some [(''id'', JStr ''r1''), (''patient_id'', JStr ''p1''),
                 (''provider_id'', JStr ''d1''), (''title'', JStr ''Visit''),
                 (''content_encrypted'', JStr ''kms:flu''), (''mrn'', JStr ''MRN000001''),
                 (''patient_user_id'', JStr ''u1''), (''patient_first_name'', JStr ''Ann''),
                 (''patient_last_name'', JStr ''Lee''), (''provider_first_name'', JStr ''Eve''),
                 (''provider_last_name'', JStr ''Kim'')]),
        Decided True, KmsDecrypt ''kms:flu'',
        Inserted ''medical_record_access_logs''
          [(''id'', JStr ''uuid-''), (''medical_record_id'', JStr ''r1''),
           (''user_id'', JStr ''u1''), (''action'', JStr ''ACCESSED''),
           (''timestamp'', JStr ''2025-01-01T00:00:00.000Z'')]]
   \<and> fst (getAppointment ''a1'' u1 audit_down) = Inl (Error ''Database unavailable'')"
  by code_simp

subsection \<open>Redaction of audit snapshots\<close>

text \<open>
  C2: the snapshot written by \<open>withAuditLog\<close> goes through \<open>sanitizeBody\<close>, which only
  looks at the top-level properties, compares names exactly and does not list
  \<open>authorization\<close>.  A nested \<open>password\<close>, a \<open>Password\<close> and an \<open>authorization\<close>
  header all reach the audit table unchanged: the entry that the patient service's
  pipeline writes for the sample call holds the nested password of the request, and the
  entry that \<open>withAuditLog\<close> writes around a handler that answers holds the nested
  \<open>token\<close> of the response.
\<close>

theorem nested_secret_persisted:
  "sanitizeBody (JObj [(''user'', JObj [(''password'', JStr ''x'')])])
     = JObj [(''user'', JObj [(''password'', JStr ''x'')])]
   \<and> sanitizeBody (JObj [(''Password'', JStr ''x'')]) = JObj [(''Password'', JStr ''x'')]
   \<and> sanitizeBody (JObj [(''authorization'', JStr ''Bearer x'')])
     = JObj [(''authorization'', JStr ''Bearer x'')]
   \<and> map ae_requestBody
         (audit_items (snd (withMiddleware succeeding demo_context demo_world)))
     = [Some (JObj [(''id'', JStr ''u1''), (''user'', JObj [(''password'', JStr ''x'')])])]
   \<and> map (\<lambda>e. (ae_requestBody e, ae_responseBody e))
         (audit_items (snd (withAuditLog ''PATIENT'' True succeeding demo_context demo_world)))
     = [(Some (JObj [(''id'', JStr ''u1''), (''user'', JObj [(''password'', JStr ''x'')])]),
         Some (JObj [(''token'', JStr ''***REDACTED***''),
                     (''session'', JObj [(''token'', JStr ''t'')])]))]"
  by code_simp

subsection \<open>Audit entries for authentication and authorization failures\<close>

text \<open>
  What \<open>withErrorHandler\<close> is written to do: an \<open>UnauthorizedError\<close> or \<open>ForbiddenError\<close>
  of its own module is recorded, with the error's status, and answered with that status.
\<close>

lemma withErrorHandler_audits_own_classes:
  assumes "handler ctx w = (Inl (AppError c code m status details), w1)"
    "c = Unauthorized \<or> c = Forbidden" "audit_put_error w1 = None"
  shows "fst (withErrorHandler handler ctx w) = Inr (toResponse code m status details)
    \<and> map (\<lambda>e. (ae_statusCode e, ae_action e))
          (audit_items (snd (withErrorHandler handler ctx w)))
        = map (\<lambda>e. (ae_statusCode e, ae_action e)) (audit_items w1)
          @ [(status, ''LOGIN_FAILED'')]"
  using assms
  by (auto simp add: withErrorHandler_def Let_def is_security_error_def createAuditLog_def)

text \<open>Any other error, an exported one included, is answered with 500 and not recorded.\<close>

lemma withErrorHandler_on_foreign_error:
  assumes "handler ctx w = (Inl err, w1)"
    "\<And>c code m status details. err \<noteq> AppError c code m status details"
  shows "withErrorHandler handler ctx w
           = (Inr (toResponse ''INTERNAL_SERVER_ERROR'' ''An unexpected error occurred'' 500
                     JUndefined),
              w1\<lparr>console_error := console_error w1 @ [''Error:'']\<rparr>)"
proof (cases err)
  case (AppError c code m status details)
  then show ?thesis using assms(2) by blast
qed (use assms(1) in \<open>simp_all add: withErrorHandler_def Let_def\<close>)

lemma withSecurityHeaders_on_error:
  "handler ctx w = (Inl err, w1) \<Longrightarrow> withSecurityHeaders handler ctx w = (Inl err, w1)"
  by (simp add: withSecurityHeaders_def)

lemma withMiddleware_unfold:
  "withMiddleware h =
     withErrorHandler (withSecurityHeaders (withAuth
       (withAuditLog ''PATIENT'' True (validateRequest patientSchema h))))"
  by (simp add: withMiddleware_def compose_def)

text \<open>
  With \<open>patientSchema\<close>, \<open>validateRequest\<close> refuses every request and never calls the
  wrapped handler: in this pipeline \<open>withAuth\<close> is the only place that raises an
  authentication error.
\<close>

lemma validateRequest_patientSchema:
  "validateRequest patientSchema h ctx w
     = (Inl (ValidationError ''Invalid request body'' JUndefined), w)"
  by (simp add: validateRequest_def patientSchema_def split: sum.splits)

text \<open>
  C3: a call of the patient service's handler that carries no token raises
  \<open>UnauthorizedError\<close> (401) in \<open>withAuth\<close>, and a call whose token the verifier
  rejects raises the error of \<open>authenticate\<close>.  Neither is an instance of the classes
  that \<open>withErrorHandler\<close> tests for, so the call is answered with status 500 and no audit
  entry at all is written for it.
\<close>

theorem unauthenticated_call_not_audited:
  "(ev_request_authorization (event w) = None
      \<or> ev_request_authorization (event w) = Some []
      \<or> (\<exists>token. ev_request_authorization (event w) = Some token \<and> verify w token = None))
   \<longrightarrow> fst (withMiddleware h ctx w)
         = Inr (toResponse ''INTERNAL_SERVER_ERROR'' ''An unexpected error occurred'' 500
                  JUndefined)
       \<and> audit_items (snd (withMiddleware h ctx w)) = audit_items w"
proof
  let ?inner = "withAuditLog ''PATIENT'' True (validateRequest patientSchema h)"
  assume a: "ev_request_authorization (event w) = None
      \<or> ev_request_authorization (event w) = Some []
      \<or> (\<exists>token. ev_request_authorization (event w) = Some token \<and> verify w token = None)"
  have "withAuth ?inner ctx w
          = (Inl (exported_UnauthorizedError ''No authentication token provided''), w)
        \<or> withAuth ?inner ctx w = (Inl (Error ''Invalid or expired token''), w)"
    using a by (auto simp add: withAuth_def authenticate_def)
  then obtain err where err: "withAuth ?inner ctx w = (Inl err, w)"
    and foreign: "\<And>c code m status details. err \<noteq> AppError c code m status details"
    by (auto simp add: exported_UnauthorizedError_def)
  have "withSecurityHeaders (withAuth ?inner) ctx w = (Inl err, w)"
    using err by (rule withSecurityHeaders_on_error)
  then have "withMiddleware h ctx w
      = (Inr (toResponse ''INTERNAL_SERVER_ERROR'' ''An unexpected error occurred'' 500
                JUndefined),
         w\<lparr>console_error := console_error w @ [''Error:'']\<rparr>)"
    using foreign unfolding withMiddleware_unfold
    by (rule withErrorHandler_on_foreign_error)
  then show "fst (withMiddleware h ctx w)
         = Inr (toResponse ''INTERNAL_SERVER_ERROR'' ''An unexpected error occurred'' 500
                  JUndefined)
       \<and> audit_items (snd (withMiddleware h ctx w)) = audit_items w"
    by simp
qed

theorem unauthenticated_call_not_audited_witness:
  "ev_request_authorization (event anonymous_world) = None
   \<and> fst (withAuth succeeding demo_context anonymous_world)
       = Inl (ExportedAppError Unauthorized ''UNAUTHORIZED''
                ''No authentication token provided'' 401 JUndefined)
   \<and> fst (withMiddleware succeeding demo_context anonymous_world)
       = Inr (toResponse ''INTERNAL_SERVER_ERROR'' ''An unexpected error occurred'' 500
                JUndefined)
   \<and> rs_statusCode (toResponse ''INTERNAL_SERVER_ERROR'' ''An unexpected error occurred'' 500
                       JUndefined) = 500
   \<and> audit_items (snd (withMiddleware succeeding demo_context anonymous_world)) = []"
proof -
  have a: "ev_request_authorization (event anonymous_world) = None"
    "audit_items anonymous_world = []"
    by (simp_all add: anonymous_world_def demo_world_def)
  have b: "fst (withAuth succeeding demo_context anonymous_world)
       = Inl (ExportedAppError Unauthorized ''UNAUTHORIZED''
                ''No authentication token provided'' 401 JUndefined)"
    using a by (simp add: withAuth_def exported_UnauthorizedError_def)
  have c: "rs_statusCode (toResponse ''INTERNAL_SERVER_ERROR'' ''An unexpected error occurred''
                            500 JUndefined) = 500"
    by (simp add: toResponse_def)
  show ?thesis
    using unauthenticated_call_not_audited [of anonymous_world succeeding demo_context] a b c
    by simp
qed

subsection \<open>\<open>sanitizeSensitiveData\<close> leaves its argument alone\<close>





text \<open>
  The sibling of \<open>sanitizeBody\<close> has a slip of its own: keys are lower-cased before the
  comparison, but the list spells \<open>creditCard\<close> with a capital, so that name never
  matches.
\<close>

lemma creditCard_never_matches:
  "snd (sanitizeSensitiveData 5 [Obj [(''creditCard'', VStr ''4111''), (''SSN'', VStr ''1'')]]
          (VRef 0)) = Some (VRef 1)
   \<and> fst (sanitizeSensitiveData 5 [Obj [(''creditCard'', VStr ''4111''), (''SSN'', VStr ''1'')]]
          (VRef 0)) ! 1
       = Obj [(''creditCard'', VStr ''4111''), (''SSN'', VStr ''***REDACTED***'')]"
  by code_simp



subsection \<open>UTF-8 written and read back\<close>

lemma mod64_cont: "x < 64 \<Longrightarrow> (128 + x) mod 64 = (x::nat)"
proof -
  assume x: "x < 64"
  have "(128 + x) mod 64 = (x + 64 * 2) mod 64" by (simp add: add.commute)
  also have "\<dots> = x mod 64" by (rule mod_mult_self2)
  finally show ?thesis using x by simp
qed

lemma mod_lead2: "q < 32 \<Longrightarrow> (192 + q) mod 32 = (q::nat)"
proof -
  assume q: "q < 32"
  have "(192 + q) mod 32 = (q + 32 * 6) mod 32" by (simp add: add.commute)
  also have "\<dots> = q mod 32" by (rule mod_mult_self2)
  finally show ?thesis using q by simp
qed

lemma mod_lead3: "q < 16 \<Longrightarrow> (224 + q) mod 16 = (q::nat)"
proof -
  assume q: "q < 16"
  have "(224 + q) mod 16 = (q + 16 * 14) mod 16" by (simp add: add.commute)
  also have "\<dots> = q mod 16" by (rule mod_mult_self2)
  finally show ?thesis using q by simp
qed

lemma mod_lead4: "q < 8 \<Longrightarrow> (240 + q) mod 8 = (q::nat)"
proof -
  assume q: "q < 8"
  have "(240 + q) mod 8 = (q + 8 * 30) mod 8" by (simp add: add.commute)
  also have "\<dots> = q mod 8" by (rule mod_mult_self2)
  finally show ?thesis using q by simp
qed

lemma div_4096: "(c::nat) div 4096 = c div 64 div 64"
proof -
  have "c div (64 * 64) = c div 64 div 64" by (rule div_mult2_eq)
  then show ?thesis by simp
qed

lemma div_262144: "(c::nat) div 262144 = c div 64 div 64 div 64"
proof -
  have "c div (4096 * 64) = c div 4096 div 64" by (rule div_mult2_eq)
  then show ?thesis by (simp add: div_4096)
qed

text \<open>What the decoder does on a lead byte followed by continuation bytes in range.\<close>

lemma dec_two:
  assumes "194 \<le> l" "l \<le> 223" "128 \<le> b1" "b1 \<le> 191"
  shows "utf8_dec 0 a lo hi (l # b1 # rest)
           = (l mod 32 * 64 + b1 mod 64) # utf8_dec 0 0 0x80 0xBF rest"
  using assms by simp

lemma dec_three:
  assumes "224 \<le> l" "l \<le> 239"
    "(if l = 224 then 160 else 128) \<le> b1" "b1 \<le> (if l = 237 then 159 else 191)"
    "128 \<le> b2" "b2 \<le> 191"
  shows "utf8_dec 0 a lo hi (l # b1 # b2 # rest)
           = ((l mod 16 * 64 + b1 mod 64) * 64 + b2 mod 64) # utf8_dec 0 0 0x80 0xBF rest"
  using assms by (simp split: if_splits)

lemma dec_four:
  assumes "240 \<le> l" "l \<le> 244"
    "(if l = 240 then 144 else 128) \<le> b1" "b1 \<le> (if l = 244 then 143 else 191)"
    "128 \<le> b2" "b2 \<le> 191" "128 \<le> b3" "b3 \<le> 191"
  shows "utf8_dec 0 a lo hi (l # b1 # b2 # b3 # rest)
           = (((l mod 8 * 64 + b1 mod 64) * 64 + b2 mod 64) * 64 + b3 mod 64)
             # utf8_dec 0 0 0x80 0xBF rest"
  using assms by (simp split: if_splits)

lemma utf8_dec_1:
  "c < 0x80 \<Longrightarrow> utf8_dec 0 a lo hi (utf8_bytes c @ rest) = c # utf8_dec 0 0 0x80 0xBF rest"
  by (simp add: utf8_bytes_def)

lemma utf8_dec_2:
  assumes "0x80 \<le> c" "c < 0x800"
  shows "utf8_dec 0 a lo hi (utf8_bytes c @ rest) = c # utf8_dec 0 0 0x80 0xBF rest"
proof -
  define q where "q = c div 64"
  define r where "r = c mod 64"
  have c: "c = 64 * q + r" and r: "r < 64" by (simp_all add: q_def r_def)
  have q: "2 \<le> q" "q < 32" using c r assms by linarith+
  have "utf8_dec 0 a lo hi ((192 + q) # (128 + r) # rest)
          = ((192 + q) mod 32 * 64 + (128 + r) mod 64) # utf8_dec 0 0 0x80 0xBF rest"
    using q r by (intro dec_two) simp_all
  also have "(192 + q) mod 32 * 64 + (128 + r) mod 64 = c"
    using q r c by (simp add: mod_lead2 mod64_cont)
  finally show ?thesis
    using assms by (simp add: utf8_bytes_def q_def r_def)
qed

lemma utf8_dec_3:
  assumes "0x800 \<le> c" "c < 0x10000" "\<not> (0xD800 \<le> c \<and> c < 0xE000)"
  shows "utf8_dec 0 a lo hi (utf8_bytes c @ rest) = c # utf8_dec 0 0 0x80 0xBF rest"
proof -
  define d where "d = c div 64"
  define r2 where "r2 = c mod 64"
  define q where "q = d div 64"
  define r1 where "r1 = d mod 64"
  have c: "c = 64 * d + r2" and r2: "r2 < 64" by (simp_all add: d_def r2_def)
  have d: "d = 64 * q + r1" and r1: "r1 < 64" by (simp_all add: q_def r1_def)
  have q: "q < 16" using c d r1 r2 assms by linarith
  have lo: "q = 0 \<Longrightarrow> 32 \<le> r1" using c d r2 assms by linarith
  have hi: "q = 13 \<Longrightarrow> r1 < 32" using c d r1 r2 assms by linarith
  have "utf8_dec 0 a lo hi ((224 + q) # (128 + r1) # (128 + r2) # rest)
          = (((224 + q) mod 16 * 64 + (128 + r1) mod 64) * 64 + (128 + r2) mod 64)
            # utf8_dec 0 0 0x80 0xBF rest"
    using q r1 r2 lo hi by (intro dec_three) auto
  also have "((224 + q) mod 16 * 64 + (128 + r1) mod 64) * 64 + (128 + r2) mod 64 = c"
    using q r1 r2 c d by (simp add: mod_lead3 mod64_cont)
  finally show ?thesis
    using assms by (simp add: utf8_bytes_def div_4096 d_def r2_def q_def r1_def)
qed

lemma utf8_dec_4:
  assumes "0x10000 \<le> c" "c < 0x110000"
  shows "utf8_dec 0 a lo hi (utf8_bytes c @ rest) = c # utf8_dec 0 0 0x80 0xBF rest"
proof -
  define d where "d = c div 64"
  define r3 where "r3 = c mod 64"
  define e where "e = d div 64"
  define r2 where "r2 = d mod 64"
  define q where "q = e div 64"
  define r1 where "r1 = e mod 64"
  have c: "c = 64 * d + r3" and r3: "r3 < 64" by (simp_all add: d_def r3_def)
  have d: "d = 64 * e + r2" and r2: "r2 < 64" by (simp_all add: e_def r2_def)
  have e: "e = 64 * q + r1" and r1: "r1 < 64" by (simp_all add: q_def r1_def)
  have q: "q \<le> 4" using c d e r1 r2 r3 assms by linarith
  have lo: "q = 0 \<Longrightarrow> 16 \<le> r1" using c d e r2 r3 assms by linarith
  have hi: "q = 4 \<Longrightarrow> r1 < 16" using c d e r1 r2 r3 assms by linarith
  have "utf8_dec 0 a lo hi ((240 + q) # (128 + r1) # (128 + r2) # (128 + r3) # rest)
          = ((((240 + q) mod 8 * 64 + (128 + r1) mod 64) * 64 + (128 + r2) mod 64) * 64
               + (128 + r3) mod 64)
            # utf8_dec 0 0 0x80 0xBF rest"
    using q r1 r2 r3 lo hi by (intro dec_four) auto
  also have "(((240 + q) mod 8 * 64 + (128 + r1) mod 64) * 64 + (128 + r2) mod 64) * 64
               + (128 + r3) mod 64 = c"
    using q r1 r2 r3 c d e by (simp add: mod_lead4 mod64_cont)
  finally show ?thesis
    using assms
    by (simp add: utf8_bytes_def div_4096 div_262144 d_def r3_def e_def r2_def q_def r1_def)
qed

lemma utf8_dec_scalar:
  "scalar c \<Longrightarrow> utf8_dec 0 a lo hi (utf8_bytes c @ rest) = c # utf8_dec 0 0 0x80 0xBF rest"
  using utf8_dec_1 [of c] utf8_dec_2 [of c] utf8_dec_3 [of c] utf8_dec_4 [of c]
  by (cases "c < 0x80"; cases "c < 0x800"; cases "c < 0x10000") (simp_all add: scalar_def)

lemma utf8_dec_scalars:
  "list_all scalar cs \<Longrightarrow> utf8_dec 0 0 0x80 0xBF (concat (map utf8_bytes cs)) = cs"
  by (induction cs) (simp_all add: utf8_dec_scalar)

lemma mod64_small: "(x::nat) mod 64 < 128"
proof -
  have "x mod 64 < 64" by simp
  then show ?thesis by linarith
qed

lemma utf8_bytes_small: "scalar c \<Longrightarrow> list_all (\<lambda>b. b < 256) (utf8_bytes c)"
proof -
  assume s: "scalar c"
  define d where "d = c div 64"
  define e where "e = d div 64"
  define q where "q = e div 64"
  have c: "c = 64 * d + c mod 64" "c mod 64 < 64" by (simp_all add: d_def)
  have d: "d = 64 * e + d mod 64" "d mod 64 < 64" by (simp_all add: e_def)
  have e: "e = 64 * q + e mod 64" "e mod 64 < 64" by (simp_all add: q_def)
  have b2: "c < 0x800 \<Longrightarrow> d < 64" using c by linarith
  have b3: "c < 0x10000 \<Longrightarrow> e < 32" using c d by linarith
  have b4: "q < 16" using s c d e by (simp add: scalar_def)
  show ?thesis
    using b2 b3 b4
    by (simp add: utf8_bytes_def div_4096 div_262144 d_def [symmetric] e_def [symmetric]
        q_def [symmetric] mod64_small)
qed

subsection \<open>Surrogate pairs\<close>

lemma pair_div: "b < 1024 \<Longrightarrow> (a * 1024 + b) div 1024 = (a::nat)"
  by simp

lemma pair_mod: "b < 1024 \<Longrightarrow> (a * 1024 + b) mod 1024 = (b::nat)"
  by simp

lemma code_points_scalar:
  "list_all (\<lambda>u. u < 65536) us \<Longrightarrow> list_all scalar (code_points us)"
  by (induction us rule: code_points.induct)
     (auto simp add: scalar_def is_high_def is_low_def)

lemma utf16_units_pair:
  assumes "is_high u" "is_low v"
  shows "utf16_units (0x10000 + (u - 0xD800) * 1024 + (v - 0xDC00)) = [u, v]"
proof -
  define a where "a = u - 0xD800"
  define b where "b = v - 0xDC00"
  have b: "b < 1024" and u: "u = 0xD800 + a" and v: "v = 0xDC00 + b"
    using assms by (auto simp add: a_def b_def is_high_def is_low_def)
  have "utf16_units (0x10000 + a * 1024 + b) = [0xD800 + a, 0xDC00 + b]"
    using b by (simp add: utf16_units_def add.assoc pair_div pair_mod)
  then show ?thesis by (simp add: a_def [symmetric] b_def [symmetric] u [symmetric] v [symmetric])
qed

lemma utf16_roundtrip:
  "well_formed us \<Longrightarrow> list_all (\<lambda>u. u < 65536) us
   \<Longrightarrow> concat (map utf16_units (code_points us)) = us"
proof (induction us rule: well_formed.induct)
  case 1
  then show ?case by simp
next
  case (2 u)
  then show ?case by (simp add: utf16_units_def)
next
  case (3 u v us)
  show ?case
  proof (cases "is_high u")
    case True
    then show ?thesis using 3 by (simp add: utf16_units_pair)
  next
    case False
    then show ?thesis using 3 by (simp add: utf16_units_def)
  qed
qed

lemma unat_units: "list_all (\<lambda>u. u < 65536) (map unat (s :: utf16))"
proof -
  have "unat u < 65536" for u :: "16 word" using unsigned_less [of u] by simp
  then show ?thesis by (simp add: list_all_iff)
qed

lemma bytes_back: "list_all (\<lambda>b. b < 256) bs \<Longrightarrow> map unat (map of_nat bs :: byte list) = bs"
  by (induction bs) (simp_all add: unat_of_nat)

lemma concat_small:
  "list_all scalar cs \<Longrightarrow> list_all (\<lambda>b. b < 256) (concat (map utf8_bytes cs))"
  using utf8_bytes_small by (induction cs) (auto simp add: list_all_iff)

text \<open>
  Written as UTF-8 and read back, any string comes out with its surrogates paired and
  its unpaired surrogates replaced; a well-formed string comes out as it was.
\<close>

lemma utf8_decode_encode:
  "utf8_decode (utf8_encode s)
     = map of_nat (concat (map utf16_units (code_points (map unat s))))"
proof -
  have sc: "list_all scalar (code_points (map unat s))"
    using code_points_scalar [OF unat_units] .
  have unat_back: "map unat (map of_nat (concat (map utf8_bytes (code_points (map unat s))))
                 :: byte list)
              = concat (map utf8_bytes (code_points (map unat s)))"
    by (rule bytes_back [OF concat_small [OF sc]])
  have dec_back: "utf8_dec 0 0 0x80 0xBF (concat (map utf8_bytes (code_points (map unat s))))
              = code_points (map unat s)"
    by (rule utf8_dec_scalars [OF sc])
  show ?thesis
    unfolding utf8_decode_def utf8_encode_def unat_back dec_back ..
qed

lemma utf8_roundtrip: "well_formed (map unat s) \<Longrightarrow> utf8_decode (utf8_encode s) = s"
proof -
  assume "well_formed (map unat s)"
  then have "concat (map utf16_units (code_points (map unat s))) = map unat s"
    using utf16_roundtrip unat_units by blast
  then have "utf8_decode (utf8_encode s) = map of_nat (map unat s)"
    by (simp only: utf8_decode_encode)
  then show ?thesis by (simp add: comp_def)
qed

subsection \<open>Hexadecimal text and fields\<close>

lemma below_16:
  "n < 16 \<Longrightarrow> n \<in> {0, 1, 2, 3, 4, 5, 6, 7, 8, 9, 10, 11, 12, 13, 14, 15::nat}"
  by simp arith

lemma hex_value_digit: "n < 16 \<Longrightarrow> hex_value (hex_digit n) = Some n"
  by (drule below_16) (auto simp add: hex_digit_def hex_value_def)

lemma hex_digit_no_colon: "n < 16 \<Longrightarrow> CHR '':'' \<noteq> hex_digit n"
  by (drule below_16) (auto simp add: hex_digit_def)

lemma unat_byte_nibbles: "unat (b :: byte) div 16 < 16" "unat b mod 16 < 16"
proof -
  have "unat b < 256" using unsigned_less [of b] by simp
  then show "unat b div 16 < 16" by simp
  show "unat b mod 16 < 16" by simp
qed

lemma hex_decode_encode: "hex_decode (hex_encode bs @ rest) = bs @ hex_decode rest"
proof (induction bs)
  case Nil
  then show ?case by (simp add: hex_encode_def)
next
  case (Cons b bs)
  have "(of_nat (16 * (unat b div 16) + unat b mod 16) :: byte) = b"
    by simp
  then show ?case
    using Cons unat_byte_nibbles [of b]
    by (simp add: hex_encode_def hex_value_digit)
qed

lemma hex_decode_hex_encode: "hex_decode (hex_encode bs) = bs"
  using hex_decode_encode [of bs "[]"] by simp

lemma hex_encode_no_colon: "CHR '':'' \<notin> set (hex_encode bs)"
  by (induction bs) (simp_all add: hex_encode_def hex_digit_no_colon unat_byte_nibbles)

lemma even_length_hex_encode: "even (length (hex_encode bs))"
  by (induction bs) (simp_all add: hex_encode_def)

lemma split_colon_nonempty: "split_colon s \<noteq> []"
  by (induction s) (auto split: list.splits)

lemma split_colon_plain: "CHR '':'' \<notin> set a \<Longrightarrow> split_colon a = [a]"
  by (induction a) auto

lemma split_colon_field:
  "CHR '':'' \<notin> set a \<Longrightarrow> split_colon (a @ CHR '':'' # b) = a # split_colon b"
  using split_colon_nonempty [of b]
  by (induction a) (auto split: list.splits)

lemma split_colon_append:
  "split_colon (s @ CHR '':'' # junk) = split_colon s @ split_colon junk"
proof (induction s)
  case Nil
  then show ?case using split_colon_nonempty [of junk] by (auto split: list.splits)
next
  case (Cons c s)
  then show ?case
    using split_colon_nonempty [of s] by (cases "split_colon s") auto
qed

lemma split_colon_packed:
  "split_colon (hex_encode a @ '':'' @ hex_encode b @ '':'' @ hex_encode c)
     = [hex_encode a, hex_encode b, hex_encode c]"
  by (simp add: split_colon_field split_colon_plain hex_encode_no_colon)

text \<open>
  Whatever the cipher, anything appended after a further colon is never looked at.
\<close>

lemma decryptPHI_ignores_extra_fields:
  assumes "3 \<le> length (split_colon s)"
  shows "decryptPHI g (s @ CHR '':'' # junk) key = decryptPHI g s key"
proof -
  obtain a l1 where l1: "split_colon s = a # l1"
    using assms by (cases "split_colon s") simp_all
  obtain b l2 where l2: "l1 = b # l2"
    using assms l1 by (cases l1) simp_all
  obtain c rest where l3: "l2 = c # rest"
    using assms l1 l2 by (cases l2) simp_all
  have "split_colon s = a # b # c # rest"
    using l1 l2 l3 by simp
  then show ?thesis
    by (simp add: decryptPHI_def split_colon_append split: option.split)
qed

subsection \<open>The sample values, step by step\<close>

lemma demo_key_facts: "length demo_key = 32" "hd demo_key = 7" "sum_list demo_key = 224"
  by (simp_all add: demo_key_def sum_list_replicate)

lemma utf8_encode_lone_surrogate: "utf8_encode lone_surrogate = [0xEF, 0xBF, 0xBD]"
  by (simp add: utf8_encode_def lone_surrogate_def is_high_def is_low_def utf8_bytes_def)

lemma utf8_encode_demo_ssn:
  "utf8_encode demo_ssn = [0x31, 0x32, 0x33, 0x2D, 0x34, 0x35, 0x2D, 0x36, 0x37, 0x38, 0x39]"
  by (simp add: utf8_encode_def demo_ssn_def is_high_def is_low_def utf8_bytes_def)

lemmas toy_steps = toy_gcm_def node_gcm_def toy_aead_def toy_tag_def tag_lengths_def
  demo_key_facts

lemma toy_seal_lone_surrogate:
  "gcm_seal toy_gcm demo_key demo_iv [0xEF, 0xBF, 0xBD]
     = Some ([0xF6, 0xC6, 0xC4],
             [0x68, 0x69, 0x6A, 0x6B, 0x6C, 0x6D, 0x6E, 0x6F,
              0x70, 0x71, 0x72, 0x73, 0x74, 0x75, 0x76, 0x77])"
  by (simp add: toy_steps demo_iv_def)

lemma toy_seal_demo_ssn:
  "gcm_seal toy_gcm demo_key demo_iv
      [0x31, 0x32, 0x33, 0x2D, 0x34, 0x35, 0x2D, 0x36, 0x37, 0x38, 0x39]
   = Some ([0x38, 0x39, 0x3A, 0x34, 0x3B, 0x3C, 0x34, 0x3D, 0x3E, 0x3F, 0x40],
           [0x6C, 0x6D, 0x6E, 0x6F, 0x70, 0x71, 0x72, 0x73,
            0x74, 0x75, 0x76, 0x77, 0x78, 0x79, 0x7A, 0x7B])"
  by (simp add: toy_steps demo_iv_def)

lemma hex_encode_demo:
  "hex_encode demo_iv = ''a00102030405060708090a0b0c0d0eff''"
  "hex_encode [0x68, 0x69, 0x6A, 0x6B, 0x6C, 0x6D, 0x6E, 0x6F,
               0x70, 0x71, 0x72, 0x73, 0x74, 0x75, 0x76, 0x77]
     = ''68696a6b6c6d6e6f7071727374757677''"
  "hex_encode [0xF6, 0xC6, 0xC4] = ''f6c6c4''"
  "hex_encode [0x6C, 0x6D, 0x6E, 0x6F, 0x70, 0x71, 0x72, 0x73,
               0x74, 0x75, 0x76, 0x77, 0x78, 0x79, 0x7A, 0x7B]
     = ''6c6d6e6f707172737475767778797a7b''"
  "hex_encode [0x6C, 0x6D, 0x6E, 0x6F] = ''6c6d6e6f''"
  "hex_encode [0x38, 0x39, 0x3A, 0x34, 0x3B, 0x3C, 0x34, 0x3D, 0x3E, 0x3F, 0x40]
     = ''38393a343b3c343d3e3f40''"
  by (simp_all add: hex_encode_def hex_digit_def demo_iv_def)

lemmas decrypt_steps = decryptPHI_def hex_value_def toy_steps
  Let_def utf8_decode_def utf16_units_def demo_ssn_def

lemma encrypt_demo_ssn:
  "encryptPHI toy_gcm demo_iv demo_ssn demo_key
     = Inr ''a00102030405060708090a0b0c0d0eff:6c6d6e6f707172737475767778797a7b:38393a343b3c343d3e3f40''"
  by (simp add: encryptPHI_def utf8_encode_demo_ssn toy_seal_demo_ssn hex_encode_demo)

lemma encrypt_demo_ssn_other_iv:
  "encryptPHI toy_gcm other_iv demo_ssn demo_key
     = Inr ''a10102030405060708090a0b0c0d0eff:6d6e6f707172737475767778797a7b7c:38393a343b3c343d3e3f40''"
  by (simp add: encryptPHI_def utf8_encode_demo_ssn toy_steps
      hex_encode_def hex_digit_def other_iv_def)

lemma decrypt_demo_ssn:
  "decryptPHI toy_gcm
      ''a00102030405060708090a0b0c0d0eff:6c6d6e6f707172737475767778797a7b:38393a343b3c343d3e3f40''
      demo_key = Inr demo_ssn"
  by (simp add: decrypt_steps)

subsection \<open>Encrypting and decrypting\<close>

text \<open>
  C6, as stated, fails for a plaintext that is not well-formed UTF-16: a string made of
  one unpaired surrogate is written to the cipher as the three bytes of U+FFFD and comes
  back as U+FFFD.
\<close>

theorem roundtrip_counterexample:
  "encryptPHI toy_gcm demo_iv lone_surrogate demo_key
     = Inr ''a00102030405060708090a0b0c0d0eff:68696a6b6c6d6e6f7071727374757677:f6c6c4''
   \<and> decryptPHI toy_gcm
        ''a00102030405060708090a0b0c0d0eff:68696a6b6c6d6e6f7071727374757677:f6c6c4'' demo_key
     = Inr [0xFFFD]
   \<and> [0xFFFD] \<noteq> lone_surrogate"
proof (intro conjI)
  show "encryptPHI toy_gcm demo_iv lone_surrogate demo_key
     = Inr ''a00102030405060708090a0b0c0d0eff:68696a6b6c6d6e6f7071727374757677:f6c6c4''"
    by (simp add: encryptPHI_def utf8_encode_lone_surrogate toy_seal_lone_surrogate
        hex_encode_demo)
  show "decryptPHI toy_gcm
        ''a00102030405060708090a0b0c0d0eff:68696a6b6c6d6e6f7071727374757677:f6c6c4'' demo_key
     = Inr [0xFFFD]"
    by (simp add: decrypt_steps)
  show "[0xFFFD] \<noteq> lone_surrogate"
    by (simp add: lone_surrogate_def)
qed

text \<open>
  C6, amended: for a well-formed plaintext, a key and IV the cipher accepts, and a cipher
  that opens what it has sealed, \<open>decryptPHI\<close> returns the plaintext that \<open>encryptPHI\<close>
  was given; and two encryptions of the same plaintext under different IVs are
  different strings.
\<close>

theorem encrypt_decrypt_roundtrip:
  "(well_formed (map unat P) \<and> gcm_seal g K iv (utf8_encode P) = Some (c, t)
      \<and> gcm_open g K iv t = Some f \<and> f c = Some (utf8_encode P)
     \<longrightarrow> encryptPHI g iv P K = Inr (hex_encode iv @ '':'' @ hex_encode t @ '':'' @ hex_encode c)
       \<and> decryptPHI g (hex_encode iv @ '':'' @ hex_encode t @ '':'' @ hex_encode c) K = Inr P)
   \<and> (iv \<noteq> iv' \<and> encryptPHI g iv P K = Inr s \<and> encryptPHI g iv' P K = Inr s'
     \<longrightarrow> s \<noteq> s')"
proof (intro conjI impI)
  assume a: "well_formed (map unat P) \<and> gcm_seal g K iv (utf8_encode P) = Some (c, t)
      \<and> gcm_open g K iv t = Some f \<and> f c = Some (utf8_encode P)"
  show "encryptPHI g iv P K = Inr (hex_encode iv @ '':'' @ hex_encode t @ '':'' @ hex_encode c)"
    using a by (simp add: encryptPHI_def)
  have "utf8_decode (utf8_encode P) = P" using a utf8_roundtrip by blast
  then show "decryptPHI g (hex_encode iv @ '':'' @ hex_encode t @ '':'' @ hex_encode c) K
               = Inr P"
    unfolding decryptPHI_def split_colon_packed
    using a by (simp add: hex_decode_hex_encode even_length_hex_encode)
next
  assume b: "iv \<noteq> iv' \<and> encryptPHI g iv P K = Inr s \<and> encryptPHI g iv' P K = Inr s'"
  obtain c t where s: "s = hex_encode iv @ '':'' @ hex_encode t @ '':'' @ hex_encode c"
    using b by (auto simp add: encryptPHI_def split: option.splits)
  obtain c' t' where s': "s' = hex_encode iv' @ '':'' @ hex_encode t' @ '':'' @ hex_encode c'"
    using b by (auto simp add: encryptPHI_def split: option.splits)
  show "s \<noteq> s'"
  proof
    assume "s = s'"
    then have "split_colon s = split_colon s'" by simp
    then have "hex_encode iv = hex_encode iv'"
      unfolding s s' split_colon_packed by simp
    then have "iv = iv'"
      by (metis hex_decode_hex_encode)
    then show False using b by simp
  qed
qed

theorem encrypt_decrypt_roundtrip_witness:
  "well_formed (map unat demo_ssn)
   \<and> gcm_seal toy_gcm demo_key demo_iv (utf8_encode demo_ssn)
       = Some ([0x38, 0x39, 0x3A, 0x34, 0x3B, 0x3C, 0x34, 0x3D, 0x3E, 0x3F, 0x40],
               [0x6C, 0x6D, 0x6E, 0x6F, 0x70, 0x71, 0x72, 0x73,
                0x74, 0x75, 0x76, 0x77, 0x78, 0x79, 0x7A, 0x7B])
   \<and> encryptPHI toy_gcm demo_iv demo_ssn demo_key
       = Inr ''a00102030405060708090a0b0c0d0eff:6c6d6e6f707172737475767778797a7b:38393a343b3c343d3e3f40''
   \<and> decryptPHI toy_gcm
        ''a00102030405060708090a0b0c0d0eff:6c6d6e6f707172737475767778797a7b:38393a343b3c343d3e3f40''
        demo_key = Inr demo_ssn
   \<and> demo_iv \<noteq> other_iv
   \<and> encryptPHI toy_gcm other_iv demo_ssn demo_key
       = Inr ''a10102030405060708090a0b0c0d0eff:6d6e6f707172737475767778797a7b7c:38393a343b3c343d3e3f40''
   \<and> ''a00102030405060708090a0b0c0d0eff:6c6d6e6f707172737475767778797a7b:38393a343b3c343d3e3f40''
       \<noteq> ''a10102030405060708090a0b0c0d0eff:6d6e6f707172737475767778797a7b7c:38393a343b3c343d3e3f40''"
proof -
  let ?c = "[0x38, 0x39, 0x3A, 0x34, 0x3B, 0x3C, 0x34, 0x3D, 0x3E, 0x3F, 0x40] :: byte list"
  let ?t = "[0x6C, 0x6D, 0x6E, 0x6F, 0x70, 0x71, 0x72, 0x73,
             0x74, 0x75, 0x76, 0x77, 0x78, 0x79, 0x7A, 0x7B] :: byte list"
  let ?f = "the (gcm_open toy_gcm demo_key demo_iv ?t)"
  have wf: "well_formed (map unat demo_ssn)"
    by (simp add: demo_ssn_def is_high_def is_low_def)
  have seal: "gcm_seal toy_gcm demo_key demo_iv (utf8_encode demo_ssn) = Some (?c, ?t)"
    by (simp add: utf8_encode_demo_ssn toy_seal_demo_ssn)
  have opn: "gcm_open toy_gcm demo_key demo_iv ?t = Some ?f"
    by (simp add: toy_steps demo_iv_def)
  have fc: "?f ?c = Some (utf8_encode demo_ssn)"
    by (simp add: utf8_encode_demo_ssn toy_steps demo_iv_def)
  have iv: "demo_iv \<noteq> other_iv"
    by (simp add: demo_iv_def other_iv_def)
  show ?thesis
    using encrypt_decrypt_roundtrip [of demo_ssn toy_gcm demo_key demo_iv ?c ?t ?f other_iv
        "''a00102030405060708090a0b0c0d0eff:6c6d6e6f707172737475767778797a7b:38393a343b3c343d3e3f40''"
        "''a10102030405060708090a0b0c0d0eff:6d6e6f707172737475767778797a7b7c:38393a343b3c343d3e3f40''"]
      wf seal opn fc iv encrypt_demo_ssn_other_iv
    by (simp add: hex_encode_demo)
qed

subsection \<open>Tampered and malformed input\<close>

text \<open>What is refused: an input of fewer than three fields, and a tag that is not the
  beginning of the tag computed for the ciphertext.\<close>

lemma decryptPHI_missing_field:
  "length (split_colon s) < 3 \<Longrightarrow> \<exists>e. decryptPHI g s K = Inl e"
  by (auto simp add: decryptPHI_def split: list.splits option.splits)

lemma decryptPHI_wrong_tag:
  assumes "split_colon s = ivHex # tagHex # ctHex # ignored"
    "take (length (hex_decode tagHex)) (aead_tag a K (hex_decode ivHex) (hex_decode ctHex))
       \<noteq> hex_decode tagHex"
  shows "\<exists>e. decryptPHI (node_gcm a) s K = Inl e"
  using assms by (simp add: decryptPHI_def node_gcm_def)

lemma split_colon_packed_more:
  "split_colon (hex_encode a @ '':'' @ hex_encode b @ '':'' @ hex_encode c @ '':'' @ junk)
     = hex_encode a # hex_encode b # hex_encode c # split_colon junk"
  by (simp add: split_colon_field hex_encode_no_colon)

text \<open>
  C7: \<open>decryptPHI\<close> does not refuse every tampered or malformed input.  Take any value
  that \<open>encryptPHI\<close> produced and cut its tag down to 4, 8, 12, 13, 14 or 15 bytes: the
  cipher object, created without \<open>authTagLength\<close>, accepts the shorter tag and
  \<open>decryptPHI\<close> returns the plaintext.  Or append a colon and anything else: the
  destructuring drops the fourth field and \<open>decryptPHI\<close> returns the plaintext.
  \<open>encryptPHI\<close> itself only ever writes three fields with a tag of 16 bytes.
\<close>

theorem tampered_input_accepted:
  "length K = 32 \<and> iv \<noteq> [] \<and> c = aead_encrypt a K iv (utf8_encode P)
     \<and> t = aead_tag a K iv c \<and> length t = 16 \<and> n \<in> set tag_lengths
   \<longrightarrow> encryptPHI (node_gcm a) iv P K
         = Inr (hex_encode iv @ '':'' @ hex_encode t @ '':'' @ hex_encode c)
       \<and> decryptPHI (node_gcm a)
           (hex_encode iv @ '':'' @ hex_encode (take n t) @ '':'' @ hex_encode c) K
         = Inr (utf8_decode (aead_decrypt a K iv c))
       \<and> decryptPHI (node_gcm a)
           (hex_encode iv @ '':'' @ hex_encode t @ '':'' @ hex_encode c @ '':'' @ junk) K
         = Inr (utf8_decode (aead_decrypt a K iv c))
       \<and> (n < 16 \<longrightarrow> take n t \<noteq> t)"
proof (intro impI conjI)
  assume h: "length K = 32 \<and> iv \<noteq> [] \<and> c = aead_encrypt a K iv (utf8_encode P)
     \<and> t = aead_tag a K iv c \<and> length t = 16 \<and> n \<in> set tag_lengths"
  have n16: "n \<le> 16" using h by (auto simp add: tag_lengths_def)
  have lt: "length t = 16" using h by blast
  have len: "length (take n t) = n" using lt n16 by simp
  have full: "length t \<in> set tag_lengths" using lt by (simp add: tag_lengths_def)
  show "encryptPHI (node_gcm a) iv P K
         = Inr (hex_encode iv @ '':'' @ hex_encode t @ '':'' @ hex_encode c)"
    using h by (simp add: encryptPHI_def node_gcm_def)
  show "decryptPHI (node_gcm a)
           (hex_encode iv @ '':'' @ hex_encode (take n t) @ '':'' @ hex_encode c) K
         = Inr (utf8_decode (aead_decrypt a K iv c))"
    unfolding decryptPHI_def split_colon_packed
    using h len
    by (simp add: node_gcm_def hex_decode_hex_encode even_length_hex_encode)
  show "decryptPHI (node_gcm a)
           (hex_encode iv @ '':'' @ hex_encode t @ '':'' @ hex_encode c @ '':'' @ junk) K
         = Inr (utf8_decode (aead_decrypt a K iv c))"
    unfolding decryptPHI_def split_colon_packed_more
    using h full
    by (simp add: node_gcm_def hex_decode_hex_encode even_length_hex_encode)
  show "take n t \<noteq> t" if "n < 16"
    using that lt len by (metis less_irrefl)
qed

theorem tampered_input_accepted_witness:
  "length demo_key = 32 \<and> demo_iv \<noteq> [] \<and> 4 \<in> set tag_lengths
   \<and> encryptPHI toy_gcm demo_iv demo_ssn demo_key
       = Inr ''a00102030405060708090a0b0c0d0eff:6c6d6e6f707172737475767778797a7b:38393a343b3c343d3e3f40''
   \<and> decryptPHI toy_gcm ''a00102030405060708090a0b0c0d0eff:6c6d6e6f:38393a343b3c343d3e3f40''
        demo_key = Inr demo_ssn
   \<and> decryptPHI toy_gcm
        ''a00102030405060708090a0b0c0d0eff:6c6d6e6f707172737475767778797a7b:38393a343b3c343d3e3f40:00''
        demo_key = Inr demo_ssn"
proof -
  let ?c = "[0x38, 0x39, 0x3A, 0x34, 0x3B, 0x3C, 0x34, 0x3D, 0x3E, 0x3F, 0x40] :: byte list"
  let ?t = "[0x6C, 0x6D, 0x6E, 0x6F, 0x70, 0x71, 0x72, 0x73,
             0x74, 0x75, 0x76, 0x77, 0x78, 0x79, 0x7A, 0x7B] :: byte list"
  have k: "length demo_key = 32" "demo_iv \<noteq> []" "4 \<in> set tag_lengths"
    by (simp_all add: demo_key_facts demo_iv_def tag_lengths_def)
  have c: "?c = aead_encrypt toy_aead demo_key demo_iv (utf8_encode demo_ssn)"
    by (simp add: utf8_encode_demo_ssn toy_aead_def demo_key_facts)
  have t: "?t = aead_tag toy_aead demo_key demo_iv ?c" "length ?t = 16"
    by (simp_all add: toy_aead_def toy_tag_def demo_key_facts demo_iv_def)
  have p: "utf8_decode (aead_decrypt toy_aead demo_key demo_iv ?c) = demo_ssn"
    by (simp add: toy_aead_def demo_key_facts utf8_decode_def utf16_units_def demo_ssn_def)
  have cut: "take 4 ?t = [0x6C, 0x6D, 0x6E, 0x6F]"
    by simp
  have r: "encryptPHI (node_gcm toy_aead) demo_iv demo_ssn demo_key
         = Inr (hex_encode demo_iv @ '':'' @ hex_encode ?t @ '':'' @ hex_encode ?c)
       \<and> decryptPHI (node_gcm toy_aead)
           (hex_encode demo_iv @ '':'' @ hex_encode (take 4 ?t) @ '':'' @ hex_encode ?c)
           demo_key
         = Inr (utf8_decode (aead_decrypt toy_aead demo_key demo_iv ?c))
       \<and> decryptPHI (node_gcm toy_aead)
           (hex_encode demo_iv @ '':'' @ hex_encode ?t @ '':'' @ hex_encode ?c @ '':'' @ ''00'')
           demo_key
         = Inr (utf8_decode (aead_decrypt toy_aead demo_key demo_iv ?c))"
    using tampered_input_accepted
        [where K = demo_key and iv = demo_iv and c = ?c and a = toy_aead and P = demo_ssn
           and t = ?t and n = 4 and junk = "''00''"]
      k c t
    by blast
  show ?thesis
    using r k unfolding cut p toy_gcm_def [symmetric]
    by (simp add: hex_encode_demo)
qed

end
